theory Spec2Isabelle
  imports Main
begin

section \<open>Data model\<close>

text \<open>
  The API stores five kinds of rows in MySQL tables (\<open>migrations/migrate.js\<close>). A table is
  modelled as the list of its rows, a nullable column as an \<open>option\<close>, the role
  \<open>ENUM('admin', 'manager', 'user')\<close> as a datatype. Identifiers are the UUID strings the
  routes receive; timestamps are seconds on a clock that the caller supplies. Where the
  database compares two strings, the model compares them with equality, except on the
  admin routes of users (deactivate, activate, delete), where the exact comparison of
  the self-check and the comparison of the database are kept apart, and for the unique
  email of a user.
\<close>

type_synonym ident = string

datatype role = Admin | Manager | User

text \<open>\<open>req.user\<close>, as the routes read it: \<open>req.user.id\<close> and \<open>req.user.role\<close>.\<close>

record actor =
  a_id :: ident
  a_role :: role

record user_row =
  u_id :: ident
  u_name :: string
  u_email :: string
  u_password :: string
  u_role :: role
  u_is_active :: bool
  u_avatar_url :: "string option"
  u_updated_at :: nat
  u_last_login :: "nat option"

record category_row =
  c_id :: ident
  c_name :: string
  c_description :: "string option"
  c_color :: string
  c_updated_at :: nat

record project_row =
  p_id :: ident
  p_name :: string
  p_description :: "string option"
  p_status :: string
  p_priority :: string
  p_start_date :: "string option"
  p_end_date :: "string option"
  p_budget :: "string option"
  p_created_by :: ident
  p_updated_at :: nat

record task_row =
  t_id :: ident
  t_title :: string
  t_description :: "string option"
  t_project_id :: ident
  t_assigned_to :: "ident option"
  t_category_id :: "ident option"
  t_status :: string
  t_priority :: string
  t_due_date :: "string option"
  t_estimated_hours :: "string option"
  t_created_by :: ident
  t_updated_at :: nat

text \<open>The file object that the upload middleware hands to a route (\<open>req.files\<close>).\<close>

record uploaded_file =
  filename :: string
  originalname :: string
  path :: string
  file_size :: nat
  mimetype :: string

text \<open>
  A row of \<open>project_files\<close> or \<open>task_files\<close>; \<open>f_parent_id\<close> is the column
  \<open>project_id\<close> or \<open>task_id\<close>.
\<close>

record file_row =
  f_id :: ident
  f_parent_id :: ident
  f_file :: uploaded_file
  f_uploaded_by :: ident

record db =
  users :: "user_row list"
  categories :: "category_row list"
  projects :: "project_row list"
  tasks :: "task_row list"
  project_files :: "file_row list"
  task_files :: "file_row list"

text \<open>
  What a route answers: \<open>Ok\<close> is \<open>res.json\<close> with status 200, the other constructors are
  \<open>res.status(400 | 401 | 403 | 404 | 409 | 500).json\<close> with the message of the source.
\<close>

datatype 'a response =
    Ok 'a
  | BadRequest string
  | Unauthorized string
  | Forbidden string
  | NotFound string
  | Conflict string
  | ServerError string

fun is_Ok :: "'a response \<Rightarrow> bool" where
  "is_Ok (Ok _) = True"
| "is_Ok _ = False"

fun is_Forbidden :: "'a response \<Rightarrow> bool" where
  "is_Forbidden (Forbidden _) = True"
| "is_Forbidden _ = False"

fun is_NotFound :: "'a response \<Rightarrow> bool" where
  "is_NotFound (NotFound _) = True"
| "is_NotFound _ = False"

text \<open>
  JavaScript truthiness of an optional string of the request body, as in
  \<open>if (assigned_to)\<close>: \<open>undefined\<close>, \<open>null\<close> and the empty string are falsy.
\<close>

fun truthy :: "string option \<Rightarrow> bool" where
  "truthy None = False"
| "truthy (Some s) = (s \<noteq> [])"

text \<open>
  The tables are created with \<open>COLLATE=utf8_unicode_ci\<close>: in \<open>WHERE id = ?\<close> the
  database matches letters without regard to their case and does not count trailing
  spaces, whereas \<open>===\<close> of JavaScript compares two strings exactly. The model folds
  the letters \<open>A\<close> to \<open>Z\<close> and drops trailing spaces (identifiers are UUID
  strings); what the collation identifies beyond that is left out.
\<close>

definition fold_case :: "char \<Rightarrow> char" where
  "fold_case c =
     (case map_of (zip ''ABCDEFGHIJKLMNOPQRSTUVWXYZ'' ''abcdefghijklmnopqrstuvwxyz'') c of
        None \<Rightarrow> c
      | Some l \<Rightarrow> l)"

definition collation_key :: "string \<Rightarrow> string" where
  "collation_key s = map fold_case (rev (dropWhile (\<lambda>c. c = CHR '' '') (rev s)))"

definition utf8_unicode_ci :: "string \<Rightarrow> string \<Rightarrow> bool" where
  "utf8_unicode_ci a b \<longleftrightarrow> collation_key a = collation_key b"

section \<open>The statements the routes send to the database\<close>

text \<open>
  \<open>FROM tasks t LEFT JOIN projects p ON t.project_id = p.id\<close>: every task, with each
  project of that id, or with \<open>NULL\<close> when there is none.
\<close>

definition join_project :: "db \<Rightarrow> task_row \<Rightarrow> (task_row \<times> project_row option) list" where
  "join_project d t =
     (case filter (\<lambda>p. p_id p = t_project_id t) (projects d) of
        [] \<Rightarrow> [(t, None)]
      | ps \<Rightarrow> map (\<lambda>p. (t, Some p)) ps)"

definition tasks_join_projects :: "db \<Rightarrow> (task_row \<times> project_row option) list" where
  "tasks_join_projects d = concat (map (join_project d) (tasks d))"

text \<open>
  \<open>SELECT t.id, t.created_by, t.assigned_to, p.created_by as project_owner FROM tasks t
  LEFT JOIN projects p ON t.project_id = p.id WHERE t.id = ?\<close>, the check query of
  \<open>PUT /:id\<close>, \<open>PATCH /:id/status\<close> and \<open>POST /:id/upload\<close>.
\<close>

record task_check =
  created_by :: ident
  assigned_to :: "ident option"
  project_owner :: "ident option"

definition select_task_check :: "ident \<Rightarrow> db \<Rightarrow> task_check list" where
  "select_task_check tid d =
     map (\<lambda>(t, p). \<lparr> created_by = t_created_by t, assigned_to = t_assigned_to t,
                     project_owner = map_option p_created_by p \<rparr>)
       (filter (\<lambda>(t, p). t_id t = tid) (tasks_join_projects d))"

text \<open>
  \<open>SELECT t.id, t.created_by, p.created_by as project_owner ...\<close>, the check query of
  \<open>DELETE /:id\<close>: the assignee is not selected.
\<close>

record task_owner =
  o_created_by :: ident
  o_project_owner :: "ident option"

definition select_task_owner :: "ident \<Rightarrow> db \<Rightarrow> task_owner list" where
  "select_task_owner tid d =
     map (\<lambda>(t, p). \<lparr> o_created_by = t_created_by t, o_project_owner = map_option p_created_by p \<rparr>)
       (filter (\<lambda>(t, p). t_id t = tid) (tasks_join_projects d))"

text \<open>
  Foreign keys of \<open>tasks\<close>: \<open>project_id\<close> references a project, \<open>assigned_to\<close> a user and
  \<open>category_id\<close> a category when they are not \<open>NULL\<close>. An \<open>UPDATE\<close> that breaks one fails
  with \<open>ER_NO_REFERENCED_ROW_2\<close>, which \<open>errorHandler\<close> answers with status 400.
\<close>

definition references_ok :: "db \<Rightarrow> ident \<Rightarrow> ident option \<Rightarrow> ident option \<Rightarrow> bool" where
  "references_ok d project assignee category \<longleftrightarrow>
     project \<in> set (map p_id (projects d)) \<and>
     (case assignee of None \<Rightarrow> True | Some u \<Rightarrow> u \<in> set (map u_id (users d))) \<and>
     (case category of None \<Rightarrow> True | Some c \<Rightarrow> c \<in> set (map c_id (categories d)))"

text \<open>\<open>DELETE FROM tasks WHERE id = ?\<close>; \<open>task_files.task_id\<close> is \<open>ON DELETE CASCADE\<close>.\<close>

definition sql_delete_task :: "ident \<Rightarrow> db \<Rightarrow> db" where
  "sql_delete_task tid d =
     d \<lparr> tasks := filter (\<lambda>t. t_id t \<noteq> tid) (tasks d),
         task_files := filter (\<lambda>f. f_parent_id f \<noteq> tid) (task_files d) \<rparr>"

section \<open>Task routes (routes/tasks.js)\<close>

text \<open>The body of a task request, after \<open>validationRules.createTask\<close>.\<close>

record task_body =
  tb_title :: string
  tb_description :: "string option"
  tb_project_id :: ident
  tb_assigned_to :: "ident option"
  tb_category_id :: "ident option"
  tb_status :: string
  tb_priority :: string
  tb_due_date :: "string option"
  tb_estimated_hours :: "string option"

text \<open>The permission checks of the task routes, as the source writes them.\<close>

definition canEdit :: "actor \<Rightarrow> task_check \<Rightarrow> bool" where
  "canEdit user task \<longleftrightarrow>
     a_role user = Admin \<or>
     created_by task = a_id user \<or>
     assigned_to task = Some (a_id user) \<or>
     project_owner task = Some (a_id user)"

definition canDelete :: "actor \<Rightarrow> task_owner \<Rightarrow> bool" where
  "canDelete user task \<longleftrightarrow>
     a_role user = Admin \<or>
     o_created_by task = a_id user \<or>
     o_project_owner task = Some (a_id user)"

text \<open>\<open>canUpload\<close> of \<open>POST /:id/upload\<close> is the same expression as \<open>canEdit\<close>.\<close>

definition canUpload :: "actor \<Rightarrow> task_check \<Rightarrow> bool" where
  "canUpload user task \<longleftrightarrow>
     a_role user = Admin \<or>
     created_by task = a_id user \<or>
     assigned_to task = Some (a_id user) \<or>
     project_owner task = Some (a_id user)"

text \<open>The \<open>UPDATE tasks SET ... WHERE id = ?\<close> of \<open>PUT /:id\<close>.\<close>

definition update_task :: "nat \<Rightarrow> task_body \<Rightarrow> task_row \<Rightarrow> task_row" where
  "update_task now body t =
     t \<lparr> t_title := tb_title body, t_description := tb_description body,
         t_project_id := tb_project_id body, t_assigned_to := tb_assigned_to body,
         t_category_id := tb_category_id body, t_status := tb_status body,
         t_priority := tb_priority body, t_due_date := tb_due_date body,
         t_estimated_hours := tb_estimated_hours body, t_updated_at := now \<rparr>"

definition sql_update_task :: "nat \<Rightarrow> ident \<Rightarrow> task_body \<Rightarrow> db \<Rightarrow> db option" where
  "sql_update_task now tid body d =
     (if tid \<in> set (map t_id (tasks d)) \<and>
         \<not> references_ok d (tb_project_id body) (tb_assigned_to body) (tb_category_id body)
      then None
      else Some (d \<lparr> tasks := map (\<lambda>t. if t_id t = tid then update_task now body t else t) (tasks d) \<rparr>))"

text \<open>
  \<open>PUT /:id\<close>. The answer carries the task rows read back after the update
  (\<open>updatedTask[0]\<close> is the first of them).
\<close>

definition tasks_put :: "nat \<Rightarrow> actor \<Rightarrow> ident \<Rightarrow> task_body \<Rightarrow> db \<Rightarrow> task_row option response \<times> db" where
  "tasks_put now user tid body d =
     (case select_task_check tid d of
        [] \<Rightarrow> (NotFound ''Task not found'', d)
      | task # _ \<Rightarrow>
          if \<not> canEdit user task then (Forbidden ''Access denied'', d)
          else if filter (\<lambda>p. p_id p = tb_project_id body) (projects d) = []
            then (BadRequest ''Project not found'', d)
          else if truthy (tb_assigned_to body) \<and>
                  filter (\<lambda>u. Some (u_id u) = tb_assigned_to body \<and> u_is_active u) (users d) = []
            then (BadRequest ''Assigned user not found or inactive'', d)
          else if truthy (tb_category_id body) \<and>
                  filter (\<lambda>c. Some (c_id c) = tb_category_id body) (categories d) = []
            then (BadRequest ''Category not found'', d)
          else
            (case sql_update_task now tid body d of
               None \<Rightarrow> (BadRequest ''Referenced resource does not exist'', d)
             | Some d' \<Rightarrow> (Ok (find (\<lambda>t. t_id t = tid) (tasks d')), d')))"

text \<open>\<open>PATCH /:id/status\<close>.\<close>

definition tasks_patch_status :: "nat \<Rightarrow> actor \<Rightarrow> ident \<Rightarrow> string \<Rightarrow> db \<Rightarrow> string response \<times> db" where
  "tasks_patch_status now user tid new_status d =
     (if new_status \<notin> set [''todo'', ''in_progress'', ''review'', ''completed'']
      then (BadRequest ''Invalid status'', d)
      else
        (case select_task_check tid d of
           [] \<Rightarrow> (NotFound ''Task not found'', d)
         | task # _ \<Rightarrow>
             if \<not> canEdit user task then (Forbidden ''Access denied'', d)
             else
               (Ok ''Task status updated successfully'',
                d \<lparr> tasks := map (\<lambda>t. if t_id t = tid
                                       then t \<lparr> t_status := new_status, t_updated_at := now \<rparr>
                                       else t) (tasks d) \<rparr>)))"

text \<open>\<open>DELETE /:id\<close>.\<close>

definition tasks_delete :: "actor \<Rightarrow> ident \<Rightarrow> db \<Rightarrow> string response \<times> db" where
  "tasks_delete user tid d =
     (case select_task_owner tid d of
        [] \<Rightarrow> (NotFound ''Task not found'', d)
      | task # _ \<Rightarrow>
          if \<not> canDelete user task then (Forbidden ''Access denied'', d)
          else (Ok ''Task deleted successfully'', sql_delete_task tid d))"

text \<open>
  \<open>POST /:id/upload\<close>. Each uploaded file comes with the identifier that \<open>uuidv4()\<close>
  draws for its row; the rows are inserted in the order of \<open>req.files\<close>.
\<close>

definition insert_files :: "ident \<Rightarrow> ident \<Rightarrow> (ident \<times> uploaded_file) list \<Rightarrow> file_row list" where
  "insert_files parent uploader files =
     map (\<lambda>(fid, file). \<lparr> f_id = fid, f_parent_id = parent, f_file = file,
                           f_uploaded_by = uploader \<rparr>) files"

definition tasks_upload ::
  "actor \<Rightarrow> ident \<Rightarrow> (ident \<times> uploaded_file) list \<Rightarrow> db \<Rightarrow> ident list response \<times> db" where
  "tasks_upload user tid files d =
     (case select_task_check tid d of
        [] \<Rightarrow> (NotFound ''Task not found'', d)
      | task # _ \<Rightarrow>
          if \<not> canUpload user task then (Forbidden ''Access denied'', d)
          else if files = [] then (BadRequest ''No files uploaded'', d)
          else (Ok (map fst files),
                d \<lparr> task_files := task_files d @ insert_files tid (a_id user) files \<rparr>))"

subsection \<open>Reading tasks\<close>

text \<open>
  The role filter that \<open>GET /\<close> and \<open>GET /:id\<close> append for \<open>req.user.role === 'user'\<close>:
  \<open>AND (t.assigned_to = ? OR t.created_by = ? OR p.created_by = ?)\<close>, all three
  parameters being \<open>req.user.id\<close>.
\<close>

definition task_role_filter :: "actor \<Rightarrow> task_row \<times> project_row option \<Rightarrow> bool" where
  "task_role_filter user r =
     (if a_role user = User
      then t_assigned_to (fst r) = Some (a_id user) \<or>
           t_created_by (fst r) = a_id user \<or>
           map_option p_created_by (snd r) = Some (a_id user)
      else True)"

text \<open>
  The optional filters of \<open>GET /\<close>; the empty string is an absent query parameter
  (\<open>req.query.status || ''\<close>).
\<close>

record task_query =
  q_status :: string
  q_priority :: string
  q_project_id :: string
  q_assigned_to :: string
  q_search :: string

text \<open>
  The rows that the \<open>WHERE\<close> clause of \<open>GET /\<close> selects. It is the clause of the list
  query and of the count query alike; the list query then sorts the rows and cuts the
  page \<open>LIMIT ? OFFSET ?\<close> out of them. The predicate \<open>like\<close> is the \<open>LIKE\<close> of the
  database, applied to the pattern \<open>%search%\<close>; on a \<open>NULL\<close> description it is not true.
\<close>

definition tasks_list_rows ::
  "(string \<Rightarrow> string \<Rightarrow> bool) \<Rightarrow> actor \<Rightarrow> task_query \<Rightarrow> db \<Rightarrow> (task_row \<times> project_row option) list" where
  "tasks_list_rows like user q d =
     filter (\<lambda>r.
        task_role_filter user r \<and>
        (q_status q = [] \<or> t_status (fst r) = q_status q) \<and>
        (q_priority q = [] \<or> t_priority (fst r) = q_priority q) \<and>
        (q_project_id q = [] \<or> t_project_id (fst r) = q_project_id q) \<and>
        (q_assigned_to q = [] \<or> t_assigned_to (fst r) = Some (q_assigned_to q)) \<and>
        (q_search q = [] \<or>
           like (''%'' @ q_search q @ ''%'') (t_title (fst r)) \<or>
           (case t_description (fst r) of None \<Rightarrow> False
            | Some text \<Rightarrow> like (''%'' @ q_search q @ ''%'') text)))
       (tasks_join_projects d)"

definition no_task_query :: task_query where
  "no_task_query = \<lparr> q_status = [], q_priority = [], q_project_id = [], q_assigned_to = [],
     q_search = [] \<rparr>"

text \<open>\<open>GET /:id\<close>.\<close>

definition tasks_get :: "actor \<Rightarrow> ident \<Rightarrow> db \<Rightarrow> (task_row \<times> project_row option) response" where
  "tasks_get user tid d =
     (case filter (\<lambda>r. t_id (fst r) = tid \<and> task_role_filter user r) (tasks_join_projects d) of
        [] \<Rightarrow> NotFound ''Task not found or access denied''
      | r # _ \<Rightarrow> Ok r)"

section \<open>Project routes (routes/projects.js)\<close>

text \<open>
  The role filter of \<open>GET /\<close>, \<open>GET /:id\<close> and \<open>GET /:id/stats\<close>:
  \<open>AND (p.created_by = ? OR p.id IN (SELECT DISTINCT project_id FROM tasks WHERE
  assigned_to = ?))\<close>.
\<close>

definition project_role_filter :: "actor \<Rightarrow> db \<Rightarrow> project_row \<Rightarrow> bool" where
  "project_role_filter user d p =
     (if a_role user = User
      then p_created_by p = a_id user \<or>
           p_id p \<in> set (remdups (map t_project_id
                      (filter (\<lambda>t. t_assigned_to t = Some (a_id user)) (tasks d))))
      else True)"

record project_query =
  pq_status :: string
  pq_priority :: string
  pq_search :: string

definition projects_list_rows ::
  "(string \<Rightarrow> string \<Rightarrow> bool) \<Rightarrow> actor \<Rightarrow> project_query \<Rightarrow> db \<Rightarrow> project_row list" where
  "projects_list_rows like user q d =
     filter (\<lambda>p.
        project_role_filter user d p \<and>
        (pq_status q = [] \<or> p_status p = pq_status q) \<and>
        (pq_priority q = [] \<or> p_priority p = pq_priority q) \<and>
        (pq_search q = [] \<or>
           like (''%'' @ pq_search q @ ''%'') (p_name p) \<or>
           (case p_description p of None \<Rightarrow> False
            | Some text \<Rightarrow> like (''%'' @ pq_search q @ ''%'') text)))
       (projects d)"

definition no_project_query :: project_query where
  "no_project_query = \<lparr> pq_status = [], pq_priority = [], pq_search = [] \<rparr>"

text \<open>\<open>GET /:id\<close>: the project and the tasks of the project.\<close>

definition projects_get :: "actor \<Rightarrow> ident \<Rightarrow> db \<Rightarrow> (project_row \<times> task_row list) response" where
  "projects_get user pid d =
     (case filter (\<lambda>p. p_id p = pid \<and> project_role_filter user d p) (projects d) of
        [] \<Rightarrow> NotFound ''Project not found or access denied''
      | p # _ \<Rightarrow> Ok (p, filter (\<lambda>t. t_project_id t = pid) (tasks d)))"

subsection \<open>Writing projects\<close>

text \<open>
  These handlers run behind \<open>authorizeRoles('admin', 'manager')\<close>, a middleware that is
  not part of the model: what follows is the handler the middleware lets through.

  The check query of \<open>PUT /:id\<close>, \<open>DELETE /:id\<close> and \<open>POST /:id/upload\<close>:
  \<open>SELECT id, created_by FROM projects WHERE id = ?\<close>, with \<open>AND created_by = ?\<close> added
  for \<open>req.user.role === 'manager'\<close>.
\<close>

definition select_project_check :: "actor \<Rightarrow> ident \<Rightarrow> db \<Rightarrow> project_row list" where
  "select_project_check user pid d =
     filter (\<lambda>p. p_id p = pid \<and>
                 (if a_role user = Manager then p_created_by p = a_id user else True))
       (projects d)"

record project_body =
  pb_name :: string
  pb_description :: "string option"
  pb_status :: string
  pb_priority :: string
  pb_start_date :: "string option"
  pb_end_date :: "string option"
  pb_budget :: "string option"

definition update_project :: "nat \<Rightarrow> project_body \<Rightarrow> project_row \<Rightarrow> project_row" where
  "update_project now body p =
     p \<lparr> p_name := pb_name body, p_description := pb_description body,
         p_status := pb_status body, p_priority := pb_priority body,
         p_start_date := pb_start_date body, p_end_date := pb_end_date body,
         p_budget := pb_budget body, p_updated_at := now \<rparr>"

definition projects_put ::
  "nat \<Rightarrow> actor \<Rightarrow> ident \<Rightarrow> project_body \<Rightarrow> db \<Rightarrow> project_row option response \<times> db" where
  "projects_put now user pid body d =
     (case select_project_check user pid d of
        [] \<Rightarrow> (NotFound ''Project not found or access denied'', d)
      | _ # _ \<Rightarrow>
          (let d' = d \<lparr> projects := map (\<lambda>p. if p_id p = pid then update_project now body p else p)
                                       (projects d) \<rparr>
           in (Ok (find (\<lambda>p. p_id p = pid) (projects d')), d')))"

text \<open>
  \<open>DELETE FROM projects WHERE id = ?\<close>; \<open>tasks.project_id\<close> and
  \<open>project_files.project_id\<close> are \<open>ON DELETE CASCADE\<close>, and the files of a task go with
  the task.
\<close>

definition sql_delete_project :: "ident \<Rightarrow> db \<Rightarrow> db" where
  "sql_delete_project pid d =
     d \<lparr> projects := filter (\<lambda>p. p_id p \<noteq> pid) (projects d),
         tasks := filter (\<lambda>t. t_project_id t \<noteq> pid) (tasks d),
         project_files := filter (\<lambda>f. f_parent_id f \<noteq> pid) (project_files d),
         task_files := filter (\<lambda>f. f_parent_id f \<notin>
                          set (map t_id (filter (\<lambda>t. t_project_id t = pid) (tasks d))))
                         (task_files d) \<rparr>"

definition projects_delete :: "actor \<Rightarrow> ident \<Rightarrow> db \<Rightarrow> string response \<times> db" where
  "projects_delete user pid d =
     (case select_project_check user pid d of
        [] \<Rightarrow> (NotFound ''Project not found or access denied'', d)
      | _ # _ \<Rightarrow>
          if length (filter (\<lambda>t. t_project_id t = pid) (tasks d)) > 0
          then (BadRequest
                  ''Cannot delete project with existing tasks. Please delete or reassign tasks first.'',
                d)
          else (Ok ''Project deleted successfully'', sql_delete_project pid d))"

definition projects_upload ::
  "actor \<Rightarrow> ident \<Rightarrow> (ident \<times> uploaded_file) list \<Rightarrow> db \<Rightarrow> ident list response \<times> db" where
  "projects_upload user pid files d =
     (case select_project_check user pid d of
        [] \<Rightarrow> (NotFound ''Project not found or access denied'', d)
      | _ # _ \<Rightarrow>
          if files = [] then (BadRequest ''No files uploaded'', d)
          else (Ok (map fst files),
                d \<lparr> project_files := project_files d @ insert_files pid (a_id user) files \<rparr>))"

section \<open>User routes (routes/users.js)\<close>





text \<open>
  \<open>PATCH /:id/deactivate\<close> and \<open>PATCH /:id/activate\<close>, behind
  \<open>authorizeRoles('admin')\<close>. The self-check \<open>req.user.id === id\<close> is exact; the
  \<open>UPDATE ... WHERE id = ?\<close> matches under the collation. \<open>result.affectedRows\<close> is the
  number of rows that the \<open>WHERE\<close> clause of the \<open>UPDATE\<close> matches.
\<close>

definition users_deactivate :: "nat \<Rightarrow> actor \<Rightarrow> ident \<Rightarrow> db \<Rightarrow> string response \<times> db" where
  "users_deactivate now user uid d =
     (if a_id user = uid then (BadRequest ''Cannot deactivate your own account'', d)
      else
        (let d' = d \<lparr> users := map (\<lambda>u. if utf8_unicode_ci (u_id u) uid
                                         then u \<lparr> u_is_active := False, u_updated_at := now \<rparr>
                                         else u) (users d) \<rparr>
         in if length (filter (\<lambda>u. utf8_unicode_ci (u_id u) uid) (users d)) = 0
            then (NotFound ''User not found'', d')
            else (Ok ''User deactivated successfully'', d')))"

definition users_activate :: "nat \<Rightarrow> actor \<Rightarrow> ident \<Rightarrow> db \<Rightarrow> string response \<times> db" where
  "users_activate now user uid d =
     (let d' = d \<lparr> users := map (\<lambda>u. if utf8_unicode_ci (u_id u) uid
                                      then u \<lparr> u_is_active := True, u_updated_at := now \<rparr>
                                      else u) (users d) \<rparr>
      in if length (filter (\<lambda>u. utf8_unicode_ci (u_id u) uid) (users d)) = 0
         then (NotFound ''User not found'', d')
         else (Ok ''User activated successfully'', d'))"

text \<open>
  \<open>DELETE FROM users WHERE id = ?\<close>, matching under the collation. The columns
  \<open>projects.created_by\<close>, \<open>tasks.created_by\<close>, \<open>project_files.uploaded_by\<close> and
  \<open>task_files.uploaded_by\<close> are \<open>ON DELETE RESTRICT\<close>: while one of them holds the id
  of a row to delete the statement fails (\<open>ER_ROW_IS_REFERENCED_2\<close>) and \<open>None\<close> is
  returned. \<open>tasks.assigned_to\<close> is \<open>ON DELETE SET NULL\<close>. The number returned is
  \<open>affectedRows\<close>.
\<close>

definition user_is_referenced :: "ident \<Rightarrow> db \<Rightarrow> bool" where
  "user_is_referenced uid d \<longleftrightarrow>
     filter (\<lambda>p. utf8_unicode_ci (p_created_by p) uid) (projects d) \<noteq> [] \<or>
     filter (\<lambda>t. utf8_unicode_ci (t_created_by t) uid) (tasks d) \<noteq> [] \<or>
     filter (\<lambda>f. utf8_unicode_ci (f_uploaded_by f) uid) (project_files d) \<noteq> [] \<or>
     filter (\<lambda>f. utf8_unicode_ci (f_uploaded_by f) uid) (task_files d) \<noteq> []"

definition sql_delete_user :: "ident \<Rightarrow> db \<Rightarrow> (nat \<times> db) option" where
  "sql_delete_user uid d =
     (if filter (\<lambda>u. utf8_unicode_ci (u_id u) uid) (users d) = [] then Some (0, d)
      else if user_is_referenced uid d then None
      else Some (length (filter (\<lambda>u. utf8_unicode_ci (u_id u) uid) (users d)),
                 d \<lparr> users := filter (\<lambda>u. \<not> utf8_unicode_ci (u_id u) uid) (users d),
                     tasks := map (\<lambda>t. case t_assigned_to t of
                                          None \<Rightarrow> t
                                        | Some a \<Rightarrow> if utf8_unicode_ci a uid
                                                    then t \<lparr> t_assigned_to := None \<rparr> else t)
                                (tasks d) \<rparr>))"

text \<open>
  \<open>DELETE /:id\<close>, behind \<open>authorizeRoles('admin')\<close>. The self-check is exact; the two
  \<open>COUNT\<close> queries and the \<open>DELETE\<close> match under the collation. A failing statement
  reaches \<open>errorHandler\<close>, which answers an error it does not know with status 500; the
  answer carries the error's code here.
\<close>

definition users_delete :: "actor \<Rightarrow> ident \<Rightarrow> db \<Rightarrow> string response \<times> db" where
  "users_delete user uid d =
     (if a_id user = uid then (BadRequest ''Cannot delete your own account'', d)
      else if length (filter (\<lambda>p. utf8_unicode_ci (p_created_by p) uid) (projects d)) > 0 \<or>
              length (filter (\<lambda>t. utf8_unicode_ci (t_created_by t) uid) (tasks d)) > 0
        then (BadRequest
                ''Cannot delete user who has created projects or tasks. Please reassign them first.'',
              d)
      else
        (case sql_delete_user uid d of
           None \<Rightarrow> (ServerError ''ER_ROW_IS_REFERENCED_2'', d)
         | Some (affectedRows, d') \<Rightarrow>
             if affectedRows = 0 then (NotFound ''User not found'', d')
             else (Ok ''User deleted successfully'', d')))"

section \<open>Category routes (routes/categories.js)\<close>

text \<open>\<open>DELETE FROM categories WHERE id = ?\<close>; \<open>tasks.category_id\<close> is \<open>ON DELETE SET NULL\<close>.\<close>

definition sql_delete_category :: "ident \<Rightarrow> db \<Rightarrow> db" where
  "sql_delete_category cid d =
     d \<lparr> categories := filter (\<lambda>c. c_id c \<noteq> cid) (categories d),
         tasks := map (\<lambda>t. if t_category_id t = Some cid then t \<lparr> t_category_id := None \<rparr> else t)
                    (tasks d) \<rparr>"

text \<open>\<open>DELETE /:id\<close>, behind \<open>authorizeRoles('admin', 'manager')\<close>.\<close>

definition categories_delete :: "ident \<Rightarrow> db \<Rightarrow> string response \<times> db" where
  "categories_delete cid d =
     (if filter (\<lambda>c. c_id c = cid) (categories d) = [] then (NotFound ''Category not found'', d)
      else if length (filter (\<lambda>t. t_category_id t = Some cid) (tasks d)) > 0
        then (BadRequest
                ''Cannot delete category that is being used by tasks. Please reassign tasks first.'',
              d)
      else (Ok ''Category deleted successfully'', sql_delete_category cid d))"

section \<open>Tokens (routes/auth.js)\<close>

text \<open>
  The environment of the process: the two signing secrets and the lifetime of an access
  token, \<open>JWT_EXPIRES_IN\<close>, in seconds.
\<close>

record env =
  JWT_SECRET :: string
  REFRESH_TOKEN_SECRET :: string
  JWT_EXPIRES_IN :: nat

text \<open>
  The library \<open>jsonwebtoken\<close> is modelled symbolically. A token is its payload, the two
  registered claims \<open>iat\<close> and \<open>exp\<close> that \<open>jwt.sign\<close> adds, and the secret whose
  signature the token carries. \<open>jwt.verify\<close> throws \<open>JsonWebTokenError\<close> when the
  signature is not one of the secret it is given, and \<open>TokenExpiredError\<close> when the clock
  has reached \<open>exp\<close>; otherwise it returns the payload.
\<close>

record payload =
  userId :: ident
  email :: "string option"
  role :: "role option"

record token =
  tk_payload :: payload
  tk_iat :: nat
  tk_exp :: nat
  tk_signature :: string

datatype jwt_error = JsonWebTokenError | TokenExpiredError

definition jwt_sign :: "payload \<Rightarrow> string \<Rightarrow> nat \<Rightarrow> nat \<Rightarrow> token" where
  "jwt_sign pl secret expiresIn now =
     \<lparr> tk_payload = pl, tk_iat = now, tk_exp = now + expiresIn, tk_signature = secret \<rparr>"

definition jwt_verify :: "token \<Rightarrow> string \<Rightarrow> nat \<Rightarrow> jwt_error + payload" where
  "jwt_verify tok secret now =
     (if tk_signature tok \<noteq> secret then Inl JsonWebTokenError
      else if tk_exp tok \<le> now then Inl TokenExpiredError
      else Inr (tk_payload tok))"

text \<open>
  \<open>middleware/errorHandler.js\<close> on an error of \<open>jwt.verify\<close>: it knows the name
  \<open>JsonWebTokenError\<close> only; any other error is answered with status 500 and the
  error's own message.
\<close>

fun errorHandler :: "jwt_error \<Rightarrow> 'a response" where
  "errorHandler JsonWebTokenError = Unauthorized ''Invalid token''"
| "errorHandler TokenExpiredError = ServerError ''jwt expired''"

text \<open>
  The access token that \<open>POST /login\<close> and \<open>POST /refresh\<close> sign for a row of \<open>users\<close>,
  and the refresh token of \<open>POST /login\<close> (\<open>expiresIn: '7d'\<close>).
\<close>

definition sign_access_token :: "env \<Rightarrow> nat \<Rightarrow> user_row \<Rightarrow> token" where
  "sign_access_token e now user =
     jwt_sign \<lparr> userId = u_id user, email = Some (u_email user), role = Some (u_role user) \<rparr>
       (JWT_SECRET e) (JWT_EXPIRES_IN e) now"

definition sign_refresh_token :: "env \<Rightarrow> nat \<Rightarrow> user_row \<Rightarrow> token" where
  "sign_refresh_token e now user =
     jwt_sign \<lparr> userId = u_id user, email = None, role = None \<rparr>
       (REFRESH_TOKEN_SECRET e) (7 * 24 * 60 * 60) now"

text \<open>
  \<open>POST /login\<close>. \<open>bcrypt_compare\<close> is \<open>bcrypt.compare\<close> of the password sent and the
  hash stored.
\<close>

record login_data =
  ld_user :: user_row
  accessToken :: token
  refreshToken :: token

definition auth_login ::
  "(string \<Rightarrow> string \<Rightarrow> bool) \<Rightarrow> env \<Rightarrow> nat \<Rightarrow> string \<Rightarrow> string \<Rightarrow> db \<Rightarrow> login_data response \<times> db" where
  "auth_login bcrypt_compare e now mail password d =
     (case filter (\<lambda>u. u_email u = mail) (users d) of
        [] \<Rightarrow> (Unauthorized ''Invalid credentials'', d)
      | user # _ \<Rightarrow>
          if \<not> u_is_active user then (Unauthorized ''Account is deactivated'', d)
          else if \<not> bcrypt_compare password (u_password user)
            then (Unauthorized ''Invalid credentials'', d)
          else
            (Ok \<lparr> ld_user = user, accessToken = sign_access_token e now user,
                  refreshToken = sign_refresh_token e now user \<rparr>,
             d \<lparr> users := map (\<lambda>u. if u_id u = u_id user then u \<lparr> u_last_login := Some now, u_updated_at := now \<rparr> else u)
                            (users d) \<rparr>))"

text \<open>\<open>POST /refresh\<close>; the body may lack \<open>refreshToken\<close>.\<close>

definition auth_refresh :: "env \<Rightarrow> nat \<Rightarrow> token option \<Rightarrow> db \<Rightarrow> token response" where
  "auth_refresh e now refresh_token d =
     (case refresh_token of
        None \<Rightarrow> Unauthorized ''Refresh token required''
      | Some tok \<Rightarrow>
          (case jwt_verify tok (REFRESH_TOKEN_SECRET e) now of
             Inl err \<Rightarrow> errorHandler err
           | Inr decoded \<Rightarrow>
               (case filter (\<lambda>u. u_id u = userId decoded \<and> u_is_active u) (users d) of
                  [] \<Rightarrow> Unauthorized ''Invalid refresh token''
                | user # _ \<Rightarrow> Ok (sign_access_token e now user))))"

text \<open>
  Modelled from the spec: \<open>middleware/auth.js\<close>, where \<open>authenticateToken\<close> checks the
  bearer token of a request, is not among the sources. The specification has
  \<open>verify_access(token) -> Actor | Error(InvalidToken|Expired)\<close>, a "pure signature + expiry
  check" that "does not touch storage"; the access secret is \<open>JWT_SECRET\<close>, and the actor
  is the id and the role that the payload binds.
\<close>

datatype verify_error = InvalidToken | Expired

definition verify_access :: "env \<Rightarrow> nat \<Rightarrow> token \<Rightarrow> verify_error + (ident \<times> role option)" where
  "verify_access e now tok =
     (case jwt_verify tok (JWT_SECRET e) now of
        Inl JsonWebTokenError \<Rightarrow> Inl InvalidToken
      | Inl TokenExpiredError \<Rightarrow> Inl Expired
      | Inr decoded \<Rightarrow> Inr (userId decoded, role decoded))"

section \<open>The rules as the specification words them\<close>

text \<open>
  The owner of the project of a task, read from the tables directly: the first project
  with the task's \<open>project_id\<close>, if there is one.
\<close>

definition project_owner_of :: "db \<Rightarrow> task_row \<Rightarrow> ident option" where
  "project_owner_of d t = map_option p_created_by (find (\<lambda>p. p_id p = t_project_id t) (projects d))"

text \<open>
  The decision table for tasks, in the words of the specification: update, status change
  and upload are for an admin and for the task's creator, its assignee and the creator of
  its project; delete is for an admin, the task's creator and the creator of its project.
\<close>

definition table_may_edit :: "actor \<Rightarrow> db \<Rightarrow> task_row \<Rightarrow> bool" where
  "table_may_edit user d t \<longleftrightarrow>
     a_role user = Admin \<or>
     a_id user = t_created_by t \<or>
     Some (a_id user) = t_assigned_to t \<or>
     (\<exists>p\<in>set (projects d). p_id p = t_project_id t \<and> a_id user = p_created_by p)"

definition table_may_delete :: "actor \<Rightarrow> db \<Rightarrow> task_row \<Rightarrow> bool" where
  "table_may_delete user d t \<longleftrightarrow>
     a_role user = Admin \<or>
     a_id user = t_created_by t \<or>
     (\<exists>p\<in>set (projects d). p_id p = t_project_id t \<and> a_id user = p_created_by p)"

text \<open>
  The visibility rule for an actor of role \<open>user\<close>, in the words of the specification:
  a task is visible to its assignee, to its creator and to the creator of its project; a
  project is visible to its creator and to an actor who is assigned to at least one of
  its tasks.
\<close>

definition task_in_scope :: "actor \<Rightarrow> db \<Rightarrow> task_row \<Rightarrow> bool" where
  "task_in_scope user d t \<longleftrightarrow>
     t_assigned_to t = Some (a_id user) \<or> t_created_by t = a_id user \<or>
     (\<exists>p\<in>set (projects d). p_id p = t_project_id t \<and> p_created_by p = a_id user)"

definition project_in_scope :: "actor \<Rightarrow> db \<Rightarrow> project_row \<Rightarrow> bool" where
  "project_in_scope user d p \<longleftrightarrow>
     p_created_by p = a_id user \<or>
     (\<exists>t\<in>set (tasks d). t_project_id t = p_id p \<and> t_assigned_to t = Some (a_id user))"


section \<open>Example data\<close>

text \<open>
  The scenario of the specification: the user \<open>u1\<close> created the project \<open>p1\<close>; the task
  \<open>t1\<close> belongs to \<open>p1\<close> and is assigned to \<open>u2\<close>; \<open>u3\<close> has no relation to it. The
  managers \<open>m1\<close> and \<open>m2\<close> and the admin \<open>a1\<close> complete the store: \<open>m1\<close> created
  \<open>t1\<close>, \<open>m2\<close> created the project \<open>p2\<close>, and \<open>u4\<close> is a deactivated account.
\<close>

definition demo_user :: "ident \<Rightarrow> role \<Rightarrow> bool \<Rightarrow> user_row" where
  "demo_user uid r active =
     \<lparr> u_id = uid, u_name = ''name'', u_email = uid @ ''@example.com'', u_password = ''hash'',
       u_role = r, u_is_active = active, u_avatar_url = None, u_updated_at = 0,
       u_last_login = None \<rparr>"

definition demo_project :: "ident \<Rightarrow> ident \<Rightarrow> project_row" where
  "demo_project pid owner =
     \<lparr> p_id = pid, p_name = ''project'', p_description = None, p_status = ''active'',
       p_priority = ''medium'', p_start_date = None, p_end_date = None, p_budget = None,
       p_created_by = owner, p_updated_at = 0 \<rparr>"

definition demo_task :: "ident \<Rightarrow> ident \<Rightarrow> ident \<Rightarrow> ident option \<Rightarrow> task_row" where
  "demo_task tid pid creator assignee =
     \<lparr> t_id = tid, t_title = ''task'', t_description = None, t_project_id = pid,
       t_assigned_to = assignee, t_category_id = Some ''cat-1'', t_status = ''todo'',
       t_priority = ''medium'', t_due_date = None, t_estimated_hours = None,
       t_created_by = creator, t_updated_at = 0 \<rparr>"

definition demo_db :: db where
  "demo_db =
     \<lparr> users = [demo_user ''u1'' User True, demo_user ''u2'' User True,
                demo_user ''u3'' User True, demo_user ''u4'' User False,
                demo_user ''m1'' Manager True, demo_user ''m2'' Manager True,
                demo_user ''a1'' Admin True],
       categories = [\<lparr> c_id = ''cat-1'', c_name = ''Frontend'', c_description = None,
                       c_color = ''#e74c3c'', c_updated_at = 0 \<rparr>,
                     \<lparr> c_id = ''cat-2'', c_name = ''Backend'', c_description = None,
                       c_color = ''#3498db'', c_updated_at = 0 \<rparr>],
       projects = [demo_project ''p1'' ''u1'', demo_project ''p2'' ''m2'',
                   demo_project ''p3'' ''m1''],
       tasks = [demo_task ''t1'' ''p1'' ''m1'' (Some ''u2'')],
       project_files = [], task_files = [] \<rparr>"

definition demo_body :: task_body where
  "demo_body =
     \<lparr> tb_title = ''renamed'', tb_description = Some ''text'', tb_project_id = ''p1'',
       tb_assigned_to = Some ''u3'', tb_category_id = Some ''cat-2'', tb_status = ''review'',
       tb_priority = ''high'', tb_due_date = None, tb_estimated_hours = None \<rparr>"

definition demo_env :: env where
  "demo_env = \<lparr> JWT_SECRET = ''access-secret'', REFRESH_TOKEN_SECRET = ''refresh-secret'',
     JWT_EXPIRES_IN = 86400 \<rparr>"

definition demo_project_body :: project_body where
  "demo_project_body =
     \<lparr> pb_name = ''renamed'', pb_description = None, pb_status = ''completed'',
       pb_priority = ''low'', pb_start_date = None, pb_end_date = None, pb_budget = None \<rparr>"


section \<open>Properties\<close>

subsection \<open>Rows under a primary key, and the join of tasks with projects\<close>

lemma filter_key_distinct:
  "distinct (map f xs) \<Longrightarrow> x \<in> set xs \<Longrightarrow> filter (\<lambda>y. f y = f x) xs = [x]"
proof (induction xs)
  case Nil
  then show ?case by simp
next
  case (Cons a xs)
  show ?case
  proof (cases "a = x")
    case True
    with Cons.prems have "\<forall>y\<in>set xs. f y \<noteq> f x" by (auto simp: image_iff)
    then have "filter (\<lambda>y. f y = f x) xs = []" by (simp add: filter_empty_conv)
    with True show ?thesis by simp
  next
    case False
    with Cons.prems have "x \<in> set xs" "f a \<noteq> f x" by (auto simp: image_iff)
    with Cons show ?thesis by simp
  qed
qed

lemma filter_tasks_join:
  "filter (\<lambda>(t, p). t_id t = tid) (tasks_join_projects d) =
   concat (map (join_project d) (filter (\<lambda>t. t_id t = tid) (tasks d)))"
proof -
  have "filter (\<lambda>(t, p). t_id t = tid) (concat (map (join_project d) ts)) =
        concat (map (join_project d) (filter (\<lambda>t. t_id t = tid) ts))" for ts
  proof (induction ts)
    case Nil
    then show ?case by simp
  next
    case (Cons a ts)
    have "filter (\<lambda>(t, p). t_id t = tid) (join_project d a) =
          (if t_id a = tid then join_project d a else [])"
      by (auto simp: join_project_def filter_empty_conv split: list.splits)
    with Cons show ?case by simp
  qed
  then show ?thesis by (simp add: tasks_join_projects_def)
qed

lemma find_as_filter:
  "find P xs = (case filter P xs of [] \<Rightarrow> None | x # _ \<Rightarrow> Some x)"
  by (induction xs) auto

lemma join_project_hd:
  "\<exists>rest. join_project d t = (t, find (\<lambda>p. p_id p = t_project_id t) (projects d)) # rest"
  by (simp add: join_project_def find_as_filter split: list.splits)

lemma select_task_check_distinct:
  assumes "distinct (map t_id (tasks d))" and "t \<in> set (tasks d)"
  shows "\<exists>rest. select_task_check (t_id t) d =
           \<lparr> created_by = t_created_by t, assigned_to = t_assigned_to t,
             project_owner = project_owner_of d t \<rparr> # rest"
proof -
  have a: "filter (\<lambda>t'. t_id t' = t_id t) (tasks d) = [t]"
    using assms by (rule filter_key_distinct)
  obtain rest where b: "join_project d t =
      (t, find (\<lambda>p. p_id p = t_project_id t) (projects d)) # rest"
    using join_project_hd by blast
  have "filter (\<lambda>(t', p). t_id t' = t_id t) (tasks_join_projects d) = join_project d t"
    unfolding filter_tasks_join a by simp
  then show ?thesis
    unfolding select_task_check_def b project_owner_of_def by simp
qed

lemma find_key_distinct:
  "distinct (map f xs) \<Longrightarrow> find (\<lambda>y. f y = k) xs = Some x \<longleftrightarrow> x \<in> set xs \<and> f x = k"
proof (induction xs)
  case Nil
  then show ?case by simp
next
  case (Cons a xs)
  then show ?case by (auto simp: image_iff)
qed

lemma project_owner_of_distinct:
  assumes "distinct (map p_id (projects d))"
  shows "project_owner_of d t = Some u \<longleftrightarrow>
         (\<exists>p\<in>set (projects d). p_id p = t_project_id t \<and> p_created_by p = u)"
  unfolding project_owner_of_def map_option_eq_Some find_key_distinct[OF assms]
  by blast

lemma select_task_owner_distinct:
  assumes "distinct (map t_id (tasks d))" and "t \<in> set (tasks d)"
  shows "\<exists>rest. select_task_owner (t_id t) d =
           \<lparr> o_created_by = t_created_by t, o_project_owner = project_owner_of d t \<rparr> # rest"
proof -
  have a: "filter (\<lambda>t'. t_id t' = t_id t) (tasks d) = [t]"
    using assms by (rule filter_key_distinct)
  obtain rest where b: "join_project d t =
      (t, find (\<lambda>p. p_id p = t_project_id t) (projects d)) # rest"
    using join_project_hd by blast
  have "filter (\<lambda>(t', p). t_id t' = t_id t) (tasks_join_projects d) = join_project d t"
    unfolding filter_tasks_join a by simp
  then show ?thesis
    unfolding select_task_owner_def b project_owner_of_def by simp
qed

subsection \<open>The decision table of the task routes\<close>

lemma canEdit_table:
  assumes "distinct (map p_id (projects d))"
  shows "canEdit user \<lparr> created_by = t_created_by t, assigned_to = t_assigned_to t,
             project_owner = project_owner_of d t \<rparr> \<longleftrightarrow> table_may_edit user d t"
  unfolding canEdit_def table_may_edit_def
  using project_owner_of_distinct[OF assms, of t "a_id user"] by auto

lemma canUpload_table:
  assumes "distinct (map p_id (projects d))"
  shows "canUpload user \<lparr> created_by = t_created_by t, assigned_to = t_assigned_to t,
             project_owner = project_owner_of d t \<rparr> \<longleftrightarrow> table_may_edit user d t"
  unfolding canUpload_def table_may_edit_def
  using project_owner_of_distinct[OF assms, of t "a_id user"] by auto

lemma canDelete_table:
  assumes "distinct (map p_id (projects d))"
  shows "canDelete user \<lparr> o_created_by = t_created_by t, o_project_owner = project_owner_of d t \<rparr>
           \<longleftrightarrow> table_may_delete user d t"
  unfolding canDelete_def table_may_delete_def
  using project_owner_of_distinct[OF assms, of t "a_id user"] by auto

lemma tasks_put_table:
  assumes "distinct (map t_id (tasks d))" and "distinct (map p_id (projects d))"
    and "t \<in> set (tasks d)"
  shows "\<not> is_NotFound (fst (tasks_put now user (t_id t) body d))"
    and "is_Forbidden (fst (tasks_put now user (t_id t) body d)) \<longleftrightarrow> \<not> table_may_edit user d t"
proof -
  obtain rest where s: "select_task_check (t_id t) d =
      \<lparr> created_by = t_created_by t, assigned_to = t_assigned_to t,
        project_owner = project_owner_of d t \<rparr> # rest"
    using select_task_check_distinct[OF assms(1,3)] by blast
  show "\<not> is_NotFound (fst (tasks_put now user (t_id t) body d))"
    unfolding tasks_put_def s by (simp split: option.splits)
  show "is_Forbidden (fst (tasks_put now user (t_id t) body d)) \<longleftrightarrow> \<not> table_may_edit user d t"
    unfolding tasks_put_def s canEdit_table[OF assms(2), symmetric]
    by (simp split: option.splits)
qed

lemma tasks_patch_status_table:
  assumes "distinct (map t_id (tasks d))" and "distinct (map p_id (projects d))"
    and "t \<in> set (tasks d)"
    and "s \<in> set [''todo'', ''in_progress'', ''review'', ''completed'']"
  shows "fst (tasks_patch_status now user (t_id t) s d) =
           (if table_may_edit user d t then Ok ''Task status updated successfully''
            else Forbidden ''Access denied'')"
proof -
  obtain rest where s: "select_task_check (t_id t) d =
      \<lparr> created_by = t_created_by t, assigned_to = t_assigned_to t,
        project_owner = project_owner_of d t \<rparr> # rest"
    using select_task_check_distinct[OF assms(1,3)] by blast
  show ?thesis
    unfolding tasks_patch_status_def s canEdit_table[OF assms(2), symmetric]
    using assms(4) by simp
qed

lemma tasks_upload_table:
  assumes "distinct (map t_id (tasks d))" and "distinct (map p_id (projects d))"
    and "t \<in> set (tasks d)"
  shows "fst (tasks_upload user (t_id t) files d) =
           (if \<not> table_may_edit user d t then Forbidden ''Access denied''
            else if files = [] then BadRequest ''No files uploaded''
            else Ok (map fst files))"
proof -
  obtain rest where s: "select_task_check (t_id t) d =
      \<lparr> created_by = t_created_by t, assigned_to = t_assigned_to t,
        project_owner = project_owner_of d t \<rparr> # rest"
    using select_task_check_distinct[OF assms(1,3)] by blast
  show ?thesis
    unfolding tasks_upload_def s canUpload_table[OF assms(2), symmetric] by simp
qed

lemma tasks_delete_table:
  assumes "distinct (map t_id (tasks d))" and "distinct (map p_id (projects d))"
    and "t \<in> set (tasks d)"
  shows "fst (tasks_delete user (t_id t) d) =
           (if table_may_delete user d t then Ok ''Task deleted successfully''
            else Forbidden ''Access denied'')"
proof -
  obtain rest where s: "select_task_owner (t_id t) d =
      \<lparr> o_created_by = t_created_by t, o_project_owner = project_owner_of d t \<rparr> # rest"
    using select_task_owner_distinct[OF assms(1,3)] by blast
  show ?thesis
    unfolding tasks_delete_def s canDelete_table[OF assms(2), symmetric] by simp
qed

lemma demo_db_keys:
  "distinct (map t_id (tasks demo_db))" "distinct (map p_id (projects demo_db))"
  "distinct (map u_id (users demo_db))"
  "demo_task ''t1'' ''p1'' ''m1'' (Some ''u2'') \<in> set (tasks demo_db)"
  by (simp_all add: demo_db_def demo_task_def demo_project_def demo_user_def)

text \<open>
  C1. For every actor and every stored task (the tables having the primary keys of the
  schema), the task mutations follow the decision table. \<open>PUT /:id\<close> is refused with
  403 exactly when the actor is neither an admin nor the task's creator, its assignee or
  the creator of its project, and is never answered "not found"; \<open>PATCH /:id/status\<close>
  with a valid status and \<open>POST /:id/upload\<close> are refused with 403 in exactly the same
  case and go through otherwise; \<open>DELETE /:id\<close> goes through exactly for an admin, the
  task's creator and the creator of its project, so that an actor who is only the
  assignee is refused with 403.
\<close>

theorem task_mutations_follow_decision_table:
  assumes "distinct (map t_id (tasks d))" and "distinct (map p_id (projects d))"
    and "t \<in> set (tasks d)"
  shows "(\<not> is_NotFound (fst (tasks_put now user (t_id t) body d)) \<and>
          (is_Forbidden (fst (tasks_put now user (t_id t) body d)) \<longleftrightarrow>
             \<not> table_may_edit user d t)) \<and>
         (s \<in> set [''todo'', ''in_progress'', ''review'', ''completed''] \<longrightarrow>
            fst (tasks_patch_status now user (t_id t) s d) =
              (if table_may_edit user d t then Ok ''Task status updated successfully''
               else Forbidden ''Access denied'')) \<and>
         fst (tasks_upload user (t_id t) files d) =
           (if \<not> table_may_edit user d t then Forbidden ''Access denied''
            else if files = [] then BadRequest ''No files uploaded''
            else Ok (map fst files)) \<and>
         fst (tasks_delete user (t_id t) d) =
           (if table_may_delete user d t then Ok ''Task deleted successfully''
            else Forbidden ''Access denied'') \<and>
         (a_role user \<noteq> Admin \<and> t_assigned_to t = Some (a_id user) \<and>
          t_created_by t \<noteq> a_id user \<and>
          (\<forall>p\<in>set (projects d). p_id p = t_project_id t \<longrightarrow> p_created_by p \<noteq> a_id user) \<longrightarrow>
            \<not> is_Forbidden (fst (tasks_put now user (t_id t) body d)) \<and>
            fst (tasks_delete user (t_id t) d) = Forbidden ''Access denied'')"
proof -
  note put = tasks_put_table[OF assms, of now user body]
  note del = tasks_delete_table[OF assms, of user]
  have only_assignee:
    "\<not> is_Forbidden (fst (tasks_put now user (t_id t) body d)) \<and>
     fst (tasks_delete user (t_id t) d) = Forbidden ''Access denied''"
    if "a_role user \<noteq> Admin" "t_assigned_to t = Some (a_id user)" "t_created_by t \<noteq> a_id user"
       "\<forall>p\<in>set (projects d). p_id p = t_project_id t \<longrightarrow> p_created_by p \<noteq> a_id user"
  proof -
    from that have "table_may_edit user d t" by (simp add: table_may_edit_def)
    moreover from that have "\<not> table_may_delete user d t"
      by (auto simp: table_may_delete_def)
    ultimately show ?thesis using put(2) del by simp
  qed
  show ?thesis
    using put tasks_patch_status_table[OF assms, of s now user]
      tasks_upload_table[OF assms, of user files] del only_assignee
    by blast
qed

theorem task_mutations_follow_decision_table_witness:
  "distinct (map t_id (tasks demo_db)) \<and> distinct (map p_id (projects demo_db)) \<and>
   demo_task ''t1'' ''p1'' ''m1'' (Some ''u2'') \<in> set (tasks demo_db) \<and>
   \<not> is_Forbidden (fst (tasks_put 7 \<lparr> a_id = ''u1'', a_role = User \<rparr> ''t1'' demo_body demo_db)) \<and>
   \<not> is_Forbidden (fst (tasks_put 7 \<lparr> a_id = ''u2'', a_role = User \<rparr> ''t1'' demo_body demo_db)) \<and>
   is_Forbidden (fst (tasks_put 7 \<lparr> a_id = ''u3'', a_role = User \<rparr> ''t1'' demo_body demo_db)) \<and>
   fst (tasks_delete \<lparr> a_id = ''u2'', a_role = User \<rparr> ''t1'' demo_db) = Forbidden ''Access denied''"
proof -
  let ?t = "demo_task ''t1'' ''p1'' ''m1'' (Some ''u2'')"
  have e: "table_may_edit \<lparr> a_id = ''u1'', a_role = User \<rparr> demo_db ?t"
    "table_may_edit \<lparr> a_id = ''u2'', a_role = User \<rparr> demo_db ?t"
    "\<not> table_may_edit \<lparr> a_id = ''u3'', a_role = User \<rparr> demo_db ?t"
    "\<not> table_may_delete \<lparr> a_id = ''u2'', a_role = User \<rparr> demo_db ?t"
    by (simp_all add: table_may_edit_def table_may_delete_def demo_db_def demo_task_def
        demo_project_def)
  have i: "t_id ?t = ''t1''" by (simp add: demo_task_def)
  show ?thesis
    using demo_db_keys(1,2,4) e
      task_mutations_follow_decision_table[OF demo_db_keys(1,2,4),
        of 7 "\<lparr> a_id = ''u1'', a_role = User \<rparr>" demo_body]
      task_mutations_follow_decision_table[OF demo_db_keys(1,2,4),
        of 7 "\<lparr> a_id = ''u2'', a_role = User \<rparr>" demo_body]
      task_mutations_follow_decision_table[OF demo_db_keys(1,2,4),
        of 7 "\<lparr> a_id = ''u3'', a_role = User \<rparr>" demo_body]
    unfolding i by simp
qed

subsection \<open>A refused task update writes nothing\<close>

lemma tasks_put_unchanged_unless_Ok:
  "\<not> is_Ok (fst (tasks_put now user tid body d)) \<Longrightarrow> snd (tasks_put now user tid body d) = d"
  by (simp add: tasks_put_def split: list.splits option.splits if_splits)

lemma tasks_put_reference_checks:
  assumes "is_Ok (fst (tasks_put now user tid body d))"
  shows "tb_project_id body \<in> set (map p_id (projects d))"
    and "truthy (tb_assigned_to body) \<Longrightarrow>
           \<exists>u\<in>set (users d). Some (u_id u) = tb_assigned_to body \<and> u_is_active u"
    and "truthy (tb_category_id body) \<Longrightarrow>
           \<exists>c\<in>set (categories d). Some (c_id c) = tb_category_id body"
proof -
  from assms have p: "filter (\<lambda>p. p_id p = tb_project_id body) (projects d) \<noteq> []"
    by (auto simp: tasks_put_def split: list.splits if_splits)
  then obtain x where "x \<in> set (projects d)" "p_id x = tb_project_id body"
    by (auto simp: filter_empty_conv)
  then have "p_id x \<in> p_id ` set (projects d)" by (intro imageI)
  with \<open>p_id x = tb_project_id body\<close>
  show "tb_project_id body \<in> set (map p_id (projects d))" by simp
  show "\<exists>u\<in>set (users d). Some (u_id u) = tb_assigned_to body \<and> u_is_active u"
    if "truthy (tb_assigned_to body)"
  proof -
    from assms that
    have "filter (\<lambda>u. Some (u_id u) = tb_assigned_to body \<and> u_is_active u) (users d) \<noteq> []"
      by (auto simp: tasks_put_def split: list.splits if_splits)
    then show ?thesis by (auto simp: filter_empty_conv)
  qed
  show "\<exists>c\<in>set (categories d). Some (c_id c) = tb_category_id body"
    if "truthy (tb_category_id body)"
  proof -
    from assms that
    have "filter (\<lambda>c. Some (c_id c) = tb_category_id body) (categories d) \<noteq> []"
      by (auto simp: tasks_put_def split: list.splits if_splits)
    then show ?thesis by (auto simp: filter_empty_conv)
  qed
qed

lemma select_task_check_absent:
  "tid \<notin> set (map t_id (tasks d)) \<Longrightarrow> select_task_check tid d = []"
proof -
  assume "tid \<notin> set (map t_id (tasks d))"
  then have "filter (\<lambda>t. t_id t = tid) (tasks d) = []"
    by (auto simp: filter_empty_conv)
  then show ?thesis by (simp add: select_task_check_def filter_tasks_join)
qed


lemma demo_select_task_check:
  "select_task_check ''t1'' demo_db =
     [\<lparr> created_by = ''m1'', assigned_to = Some ''u2'', project_owner = Some ''u1'' \<rparr>]"
  "select_task_owner ''t1'' demo_db = [\<lparr> o_created_by = ''m1'', o_project_owner = Some ''u1'' \<rparr>]"
  by (simp_all add: select_task_check_def select_task_owner_def tasks_join_projects_def
      join_project_def demo_db_def demo_task_def demo_project_def)

text \<open>
  C8. A task update that does not end in the answer 200 leaves the whole store as it
  was: the lookup, the permission check and the three reference checks all come before
  the \<open>UPDATE\<close>. An absent task is answered 404 with nothing written, and an update goes
  through only when the referenced project exists, the assigned user (if one is given)
  exists and is active, and the category (if one is given) exists.
\<close>

theorem task_update_is_atomic:
  "(\<not> is_Ok (fst (tasks_put now user tid body d)) \<longrightarrow>
      snd (tasks_put now user tid body d) = d) \<and>
   (tid \<notin> set (map t_id (tasks d)) \<longrightarrow>
      tasks_put now user tid body d = (NotFound ''Task not found'', d)) \<and>
   (is_Forbidden (fst (tasks_put now user tid body d)) \<longrightarrow>
      snd (tasks_put now user tid body d) = d) \<and>
   (tb_project_id body \<notin> set (map p_id (projects d)) \<or>
    (truthy (tb_assigned_to body) \<and>
       \<not> (\<exists>u\<in>set (users d). Some (u_id u) = tb_assigned_to body \<and> u_is_active u)) \<or>
    (truthy (tb_category_id body) \<and>
       \<not> (\<exists>c\<in>set (categories d). Some (c_id c) = tb_category_id body)) \<longrightarrow>
      \<not> is_Ok (fst (tasks_put now user tid body d)) \<and>
      snd (tasks_put now user tid body d) = d)"
proof -
  have a: "\<not> is_Ok (fst (tasks_put now user tid body d)) \<longrightarrow>
      snd (tasks_put now user tid body d) = d"
    using tasks_put_unchanged_unless_Ok by blast
  have b: "tid \<notin> set (map t_id (tasks d)) \<longrightarrow>
      tasks_put now user tid body d = (NotFound ''Task not found'', d)"
    by (simp add: tasks_put_def select_task_check_absent)
  have c: "is_Forbidden (fst (tasks_put now user tid body d)) \<longrightarrow>
      snd (tasks_put now user tid body d) = d"
  proof
    assume "is_Forbidden (fst (tasks_put now user tid body d))"
    then have "\<not> is_Ok (fst (tasks_put now user tid body d))"
      by (cases "fst (tasks_put now user tid body d)") simp_all
    with a show "snd (tasks_put now user tid body d) = d" by blast
  qed
  have e: "\<not> is_Ok (fst (tasks_put now user tid body d))"
    if "tb_project_id body \<notin> set (map p_id (projects d)) \<or>
        (truthy (tb_assigned_to body) \<and>
          \<not> (\<exists>u\<in>set (users d). Some (u_id u) = tb_assigned_to body \<and> u_is_active u)) \<or>
        (truthy (tb_category_id body) \<and>
          \<not> (\<exists>c\<in>set (categories d). Some (c_id c) = tb_category_id body))"
    using that tasks_put_reference_checks[of now user tid body d] by blast
  from a b c e show ?thesis by blast
qed

theorem task_update_is_atomic_witness:
  "\<not> is_Ok (fst (tasks_put 7 \<lparr> a_id = ''u3'', a_role = User \<rparr> ''t1'' demo_body demo_db)) \<and>
   snd (tasks_put 7 \<lparr> a_id = ''u3'', a_role = User \<rparr> ''t1'' demo_body demo_db) = demo_db \<and>
   ''t9'' \<notin> set (map t_id (tasks demo_db)) \<and>
   tasks_put 7 \<lparr> a_id = ''a1'', a_role = Admin \<rparr> ''t9'' demo_body demo_db =
     (NotFound ''Task not found'', demo_db) \<and>
   truthy (tb_assigned_to (demo_body \<lparr> tb_assigned_to := Some ''u4'' \<rparr>)) \<and>
   \<not> (\<exists>u\<in>set (users demo_db).
         Some (u_id u) = tb_assigned_to (demo_body \<lparr> tb_assigned_to := Some ''u4'' \<rparr>) \<and>
         u_is_active u) \<and>
   snd (tasks_put 7 \<lparr> a_id = ''a1'', a_role = Admin \<rparr> ''t1''
          (demo_body \<lparr> tb_assigned_to := Some ''u4'' \<rparr>) demo_db) = demo_db"
proof -
  have f: "is_Forbidden (fst (tasks_put 7 \<lparr> a_id = ''u3'', a_role = User \<rparr> ''t1'' demo_body demo_db))"
    by (simp add: demo_select_task_check tasks_put_def canEdit_def)
  have n: "''t9'' \<notin> set (map t_id (tasks demo_db))"
    by (simp add: demo_db_def demo_task_def)
  have u: "truthy (tb_assigned_to (demo_body \<lparr> tb_assigned_to := Some ''u4'' \<rparr>))"
    "\<not> (\<exists>u\<in>set (users demo_db).
         Some (u_id u) = tb_assigned_to (demo_body \<lparr> tb_assigned_to := Some ''u4'' \<rparr>) \<and>
         u_is_active u)"
    by (simp_all add: demo_db_def demo_user_def)
  show ?thesis
    using f n u
      task_update_is_atomic[of 7 "\<lparr> a_id = ''u3'', a_role = User \<rparr>" "''t1''" demo_body demo_db]
      task_update_is_atomic[of 7 "\<lparr> a_id = ''a1'', a_role = Admin \<rparr>" "''t9''" demo_body demo_db]
      task_update_is_atomic[of 7 "\<lparr> a_id = ''a1'', a_role = Admin \<rparr>" "''t1''"
        "demo_body \<lparr> tb_assigned_to := Some ''u4'' \<rparr>" demo_db]
    by (cases "fst (tasks_put 7 \<lparr> a_id = ''u3'', a_role = User \<rparr> ''t1'' demo_body demo_db)")
       simp_all
qed

subsection \<open>A target that is not stored\<close>

lemma select_project_check_absent:
  "pid \<notin> set (map p_id (projects d)) \<Longrightarrow> select_project_check user pid d = []"
  by (auto simp: select_project_check_def filter_empty_conv)


lemma absent_project_answers:
  assumes "x \<notin> set (map p_id (projects d))"
  shows "projects_put now user x body d = (NotFound ''Project not found or access denied'', d)"
    and "projects_delete user x d = (NotFound ''Project not found or access denied'', d)"
    and "projects_upload user x files d = (NotFound ''Project not found or access denied'', d)"
  using assms
  by (simp_all add: projects_put_def projects_delete_def projects_upload_def
      select_project_check_absent)






subsection \<open>Managers and the projects of others\<close>

lemma select_project_check_manager_foreign:
  assumes "a_role user = Manager"
    and "\<forall>p\<in>set (projects d). p_id p = pid \<longrightarrow> p_created_by p \<noteq> a_id user"
  shows "select_project_check user pid d = []"
  using assms by (auto simp: select_project_check_def filter_empty_conv)

lemma select_project_check_own:
  assumes "p \<in> set (projects d)" and "p_id p = pid" and "p_created_by p = a_id user"
  shows "select_project_check user pid d \<noteq> []"
  using assms by (auto simp: select_project_check_def filter_empty_conv)

lemma projects_put_found:
  assumes "select_project_check user pid d \<noteq> []"
  shows "projects_put now user pid body d =
           (Ok (find (\<lambda>p. p_id p = pid)
                  (map (\<lambda>p. if p_id p = pid then update_project now body p else p) (projects d))),
            d \<lparr> projects := map (\<lambda>p. if p_id p = pid then update_project now body p else p)
                               (projects d) \<rparr>)"
  using assms by (simp add: projects_put_def Let_def split: list.splits)

text \<open>
  C4, as the claim states it, fails: the manager \<open>m1\<close> updates the stored project \<open>p2\<close>,
  which \<open>m2\<close> created, and the answer is 404 "Project not found or access denied", not
  403.
\<close>

theorem manager_foreign_project_counterexample:
  "demo_project ''p2'' ''m2'' \<in> set (projects demo_db) \<and>
   projects_put 7 \<lparr> a_id = ''m1'', a_role = Manager \<rparr> ''p2'' demo_project_body demo_db =
     (NotFound ''Project not found or access denied'', demo_db) \<and>
   \<not> is_Forbidden
       (fst (projects_put 7 \<lparr> a_id = ''m1'', a_role = Manager \<rparr> ''p2'' demo_project_body demo_db))"
  by (simp add: projects_put_def select_project_check_def demo_db_def demo_project_def)

text \<open>
  C4, amended. For a manager and a stored project that the manager did not create,
  update and delete answer 404 "Project not found or access denied", the very answer
  given for a project that is not stored, and write nothing; the manager's update of a
  project they created is answered 200 and rewrites the rows of that id.
\<close>

theorem manager_project_ownership:
  assumes "a_role user = Manager"
  shows "((\<exists>p\<in>set (projects d). p_id p = pid) \<and>
          (\<forall>p\<in>set (projects d). p_id p = pid \<longrightarrow> p_created_by p \<noteq> a_id user) \<longrightarrow>
            projects_put now user pid body d =
              (NotFound ''Project not found or access denied'', d) \<and>
            projects_delete user pid d = (NotFound ''Project not found or access denied'', d)) \<and>
         (pid \<notin> set (map p_id (projects d)) \<longrightarrow>
            projects_put now user pid body d =
              (NotFound ''Project not found or access denied'', d) \<and>
            projects_delete user pid d = (NotFound ''Project not found or access denied'', d)) \<and>
         ((\<exists>p\<in>set (projects d). p_id p = pid \<and> p_created_by p = a_id user) \<longrightarrow>
            is_Ok (fst (projects_put now user pid body d)) \<and>
            snd (projects_put now user pid body d) =
              d \<lparr> projects := map (\<lambda>p. if p_id p = pid then update_project now body p else p)
                                 (projects d) \<rparr>)"
proof -
  have foreign: "projects_put now user pid body d =
              (NotFound ''Project not found or access denied'', d) \<and>
            projects_delete user pid d = (NotFound ''Project not found or access denied'', d)"
    if "\<forall>p\<in>set (projects d). p_id p = pid \<longrightarrow> p_created_by p \<noteq> a_id user"
    using select_project_check_manager_foreign[OF assms that]
    by (simp add: projects_put_def projects_delete_def)
  have absent: "projects_put now user pid body d =
              (NotFound ''Project not found or access denied'', d) \<and>
            projects_delete user pid d = (NotFound ''Project not found or access denied'', d)"
    if "pid \<notin> set (map p_id (projects d))"
    using absent_project_answers[OF that] by simp
  have own: "is_Ok (fst (projects_put now user pid body d)) \<and>
            snd (projects_put now user pid body d) =
              d \<lparr> projects := map (\<lambda>p. if p_id p = pid then update_project now body p else p)
                                 (projects d) \<rparr>"
    if "\<exists>p\<in>set (projects d). p_id p = pid \<and> p_created_by p = a_id user"
  proof -
    from that have "select_project_check user pid d \<noteq> []"
      using select_project_check_own by blast
    from projects_put_found[OF this] show ?thesis by simp
  qed
  from foreign absent own show ?thesis by blast
qed

theorem manager_project_ownership_witness:
  "a_role \<lparr> a_id = ''m1'', a_role = Manager \<rparr> = Manager \<and>
   (\<exists>p\<in>set (projects demo_db). p_id p = ''p2'' \<and> p_created_by p \<noteq> ''m1'') \<and>
   \<not> (\<exists>p\<in>set (projects demo_db). p_id p = ''p2'' \<and> p_created_by p = ''m1'') \<and>
   projects_delete \<lparr> a_id = ''m1'', a_role = Manager \<rparr> ''p2'' demo_db =
     (NotFound ''Project not found or access denied'', demo_db) \<and>
   (\<exists>p\<in>set (projects demo_db). p_id p = ''p3'' \<and> p_created_by p = ''m1'') \<and>
   is_Ok (fst (projects_put 7 \<lparr> a_id = ''m1'', a_role = Manager \<rparr> ''p3'' demo_project_body demo_db))"
proof -
  have h: "(\<exists>p\<in>set (projects demo_db). p_id p = ''p2'')"
    "(\<forall>p\<in>set (projects demo_db). p_id p = ''p2'' \<longrightarrow> p_created_by p \<noteq> ''m1'')"
    "(\<exists>p\<in>set (projects demo_db). p_id p = ''p3'' \<and> p_created_by p = ''m1'')"
    by (simp_all add: demo_db_def demo_project_def)
  have r: "a_role \<lparr> a_id = ''m1'', a_role = Manager \<rparr> = Manager" by simp
  have g: "\<exists>p\<in>set (projects demo_db). p_id p = ''p2'' \<and> p_created_by p \<noteq> ''m1''"
    "\<not> (\<exists>p\<in>set (projects demo_db). p_id p = ''p2'' \<and> p_created_by p = ''m1'')"
    by (simp_all add: demo_db_def demo_project_def)
  show ?thesis
    using h g
      manager_project_ownership[OF r, of demo_db "''p2''" 7 demo_project_body]
      manager_project_ownership[OF r, of demo_db "''p3''" 7 demo_project_body]
    by simp
qed

subsection \<open>Deletes and the rows that depend on the target\<close>

lemma projects_delete_guard:
  "\<exists>t\<in>set (tasks d). t_project_id t = pid \<Longrightarrow>
     \<not> is_Ok (fst (projects_delete user pid d)) \<and> snd (projects_delete user pid d) = d"
  "select_project_check user pid d \<noteq> [] \<Longrightarrow> \<exists>t\<in>set (tasks d). t_project_id t = pid \<Longrightarrow>
     fst (projects_delete user pid d) =
       BadRequest ''Cannot delete project with existing tasks. Please delete or reassign tasks first.''"
  "select_project_check user pid d \<noteq> [] \<Longrightarrow> \<not> (\<exists>t\<in>set (tasks d). t_project_id t = pid) \<Longrightarrow>
     projects_delete user pid d = (Ok ''Project deleted successfully'', sql_delete_project pid d)"
  by (auto simp: projects_delete_def filter_empty_conv split: list.splits)

lemma categories_delete_guard:
  "\<exists>t\<in>set (tasks d). t_category_id t = Some cid \<Longrightarrow>
     \<not> is_Ok (fst (categories_delete cid d)) \<and> snd (categories_delete cid d) = d"
  "cid \<in> set (map c_id (categories d)) \<Longrightarrow> \<exists>t\<in>set (tasks d). t_category_id t = Some cid \<Longrightarrow>
     fst (categories_delete cid d) =
       BadRequest ''Cannot delete category that is being used by tasks. Please reassign tasks first.''"
  "cid \<in> set (map c_id (categories d)) \<Longrightarrow> \<not> (\<exists>t\<in>set (tasks d). t_category_id t = Some cid) \<Longrightarrow>
     categories_delete cid d = (Ok ''Category deleted successfully'', sql_delete_category cid d)"
  by (auto simp: categories_delete_def filter_empty_conv)

lemma utf8_unicode_ci_refl: "utf8_unicode_ci x x"
  by (simp add: utf8_unicode_ci_def)

lemma users_delete_counts:
  assumes "(\<exists>p\<in>set (projects d). p_created_by p = uid) \<or>
           (\<exists>t\<in>set (tasks d). t_created_by t = uid)"
  shows "length (filter (\<lambda>p. utf8_unicode_ci (p_created_by p) uid) (projects d)) > 0 \<or>
         length (filter (\<lambda>t. utf8_unicode_ci (t_created_by t) uid) (tasks d)) > 0"
proof -
  from assms
  have "filter (\<lambda>p. utf8_unicode_ci (p_created_by p) uid) (projects d) \<noteq> [] \<or>
        filter (\<lambda>t. utf8_unicode_ci (t_created_by t) uid) (tasks d) \<noteq> []"
    unfolding filter_empty_conv using utf8_unicode_ci_refl by blast
  then show ?thesis by simp
qed

lemma users_delete_guard:
  assumes "(\<exists>p\<in>set (projects d). p_created_by p = uid) \<or>
           (\<exists>t\<in>set (tasks d). t_created_by t = uid)"
  shows "\<not> is_Ok (fst (users_delete user uid d)) \<and> snd (users_delete user uid d) = d"
    and "a_id user \<noteq> uid \<Longrightarrow>
     fst (users_delete user uid d) =
       BadRequest
         ''Cannot delete user who has created projects or tasks. Please reassign them first.''"
  using users_delete_counts[OF assms] by (simp_all add: users_delete_def)

text \<open>
  C10. The delete handlers guard the references. A project that still has tasks, a
  category that a task still uses and a user who created a project or a task are not
  deleted: the answer is not 200 and the whole store stays as it was; for a target that
  the handler has found (and, for a user, that is not the actor) the answer is the 400
  of the guard. A delete is answered 200 only when no such dependent row exists.
\<close>

theorem deletes_guard_references:
  "((\<exists>t\<in>set (tasks d). t_project_id t = pid) \<longrightarrow>
      \<not> is_Ok (fst (projects_delete user pid d)) \<and> snd (projects_delete user pid d) = d \<and>
      (select_project_check user pid d \<noteq> [] \<longrightarrow>
         fst (projects_delete user pid d) =
           BadRequest
             ''Cannot delete project with existing tasks. Please delete or reassign tasks first.'')) \<and>
   (is_Ok (fst (projects_delete user pid d)) \<longrightarrow> \<not> (\<exists>t\<in>set (tasks d). t_project_id t = pid)) \<and>
   ((\<exists>t\<in>set (tasks d). t_category_id t = Some cid) \<longrightarrow>
      \<not> is_Ok (fst (categories_delete cid d)) \<and> snd (categories_delete cid d) = d \<and>
      (cid \<in> set (map c_id (categories d)) \<longrightarrow>
         fst (categories_delete cid d) =
           BadRequest
             ''Cannot delete category that is being used by tasks. Please reassign tasks first.'')) \<and>
   (is_Ok (fst (categories_delete cid d)) \<longrightarrow>
      \<not> (\<exists>t\<in>set (tasks d). t_category_id t = Some cid)) \<and>
   ((\<exists>p\<in>set (projects d). p_created_by p = uid) \<or> (\<exists>t\<in>set (tasks d). t_created_by t = uid) \<longrightarrow>
      \<not> is_Ok (fst (users_delete user uid d)) \<and> snd (users_delete user uid d) = d \<and>
      (a_id user \<noteq> uid \<longrightarrow>
         fst (users_delete user uid d) =
           BadRequest
             ''Cannot delete user who has created projects or tasks. Please reassign them first.'')) \<and>
   (is_Ok (fst (users_delete user uid d)) \<longrightarrow>
      \<not> (\<exists>p\<in>set (projects d). p_created_by p = uid) \<and>
      \<not> (\<exists>t\<in>set (tasks d). t_created_by t = uid))"
proof -
  note p = projects_delete_guard(1,2)[where d = d and pid = pid and user = user]
  note c = categories_delete_guard(1,2)[where d = d and cid = cid]
  note u = users_delete_guard[where d = d and uid = uid and user = user]
  have p1: "(\<exists>t\<in>set (tasks d). t_project_id t = pid) \<longrightarrow>
      \<not> is_Ok (fst (projects_delete user pid d)) \<and> snd (projects_delete user pid d) = d \<and>
      (select_project_check user pid d \<noteq> [] \<longrightarrow>
         fst (projects_delete user pid d) =
           BadRequest
             ''Cannot delete project with existing tasks. Please delete or reassign tasks first.'')"
    using p by blast
  have p2: "is_Ok (fst (projects_delete user pid d)) \<longrightarrow>
      \<not> (\<exists>t\<in>set (tasks d). t_project_id t = pid)"
    using p(1) by blast
  have c1: "(\<exists>t\<in>set (tasks d). t_category_id t = Some cid) \<longrightarrow>
      \<not> is_Ok (fst (categories_delete cid d)) \<and> snd (categories_delete cid d) = d \<and>
      (cid \<in> set (map c_id (categories d)) \<longrightarrow>
         fst (categories_delete cid d) =
           BadRequest
             ''Cannot delete category that is being used by tasks. Please reassign tasks first.'')"
    using c by blast
  have c2: "is_Ok (fst (categories_delete cid d)) \<longrightarrow>
      \<not> (\<exists>t\<in>set (tasks d). t_category_id t = Some cid)"
    using c(1) by blast
  have u1: "(\<exists>p\<in>set (projects d). p_created_by p = uid) \<or>
      (\<exists>t\<in>set (tasks d). t_created_by t = uid) \<longrightarrow>
      \<not> is_Ok (fst (users_delete user uid d)) \<and> snd (users_delete user uid d) = d \<and>
      (a_id user \<noteq> uid \<longrightarrow>
         fst (users_delete user uid d) =
           BadRequest
             ''Cannot delete user who has created projects or tasks. Please reassign them first.'')"
    using u by blast
  have u2: "is_Ok (fst (users_delete user uid d)) \<longrightarrow>
      \<not> (\<exists>p\<in>set (projects d). p_created_by p = uid) \<and>
      \<not> (\<exists>t\<in>set (tasks d). t_created_by t = uid)"
    using u(1) by blast
  show ?thesis
    by (intro conjI p1 p2 c1 c2 u1 u2)
qed

theorem deletes_guard_references_witness:
  "(\<exists>t\<in>set (tasks demo_db). t_project_id t = ''p1'') \<and>
   fst (projects_delete \<lparr> a_id = ''a1'', a_role = Admin \<rparr> ''p1'' demo_db) =
     BadRequest ''Cannot delete project with existing tasks. Please delete or reassign tasks first.'' \<and>
   snd (projects_delete \<lparr> a_id = ''a1'', a_role = Admin \<rparr> ''p1'' demo_db) = demo_db \<and>
   (\<exists>t\<in>set (tasks demo_db). t_category_id t = Some ''cat-1'') \<and>
   snd (categories_delete ''cat-1'' demo_db) = demo_db \<and>
   (\<exists>t\<in>set (tasks demo_db). t_created_by t = ''m1'') \<and>
   snd (users_delete \<lparr> a_id = ''a1'', a_role = Admin \<rparr> ''m1'' demo_db) = demo_db \<and>
   is_Ok (fst (projects_delete \<lparr> a_id = ''m1'', a_role = Manager \<rparr> ''p3'' demo_db)) \<and>
   \<not> (\<exists>t\<in>set (tasks demo_db). t_project_id t = ''p3'')"
proof -
  have h: "\<exists>t\<in>set (tasks demo_db). t_project_id t = ''p1''"
    "\<exists>t\<in>set (tasks demo_db). t_category_id t = Some ''cat-1''"
    "\<exists>t\<in>set (tasks demo_db). t_created_by t = ''m1''"
    by (simp_all add: demo_db_def demo_task_def)
  have s: "select_project_check \<lparr> a_id = ''a1'', a_role = Admin \<rparr> ''p1'' demo_db \<noteq> []"
    by (simp add: select_project_check_def demo_db_def demo_project_def)
  have ok: "is_Ok (fst (projects_delete \<lparr> a_id = ''m1'', a_role = Manager \<rparr> ''p3'' demo_db))"
    by (simp add: projects_delete_def select_project_check_def demo_db_def demo_project_def
        demo_task_def)
  note a = deletes_guard_references[where d = demo_db and pid = "''p1''"
      and user = "\<lparr> a_id = ''a1'', a_role = Admin \<rparr>" and cid = "''cat-1''" and uid = "''m1''"]
  note b = deletes_guard_references[where d = demo_db and pid = "''p3''"
      and user = "\<lparr> a_id = ''m1'', a_role = Manager \<rparr>" and cid = "''cat-1''" and uid = "''m1''"]
  from a h s have
    "fst (projects_delete \<lparr> a_id = ''a1'', a_role = Admin \<rparr> ''p1'' demo_db) =
       BadRequest ''Cannot delete project with existing tasks. Please delete or reassign tasks first.''"
    "snd (projects_delete \<lparr> a_id = ''a1'', a_role = Admin \<rparr> ''p1'' demo_db) = demo_db"
    "snd (categories_delete ''cat-1'' demo_db) = demo_db"
    "snd (users_delete \<lparr> a_id = ''a1'', a_role = Admin \<rparr> ''m1'' demo_db) = demo_db"
    by blast+
  moreover from b ok have "\<not> (\<exists>t\<in>set (tasks demo_db). t_project_id t = ''p3'')"
    by blast
  ultimately show ?thesis using h ok by blast
qed

subsection \<open>The admin override\<close>











lemma filter_nonempty_member:
  "filter P xs \<noteq> [] \<longleftrightarrow> (\<exists>x\<in>set xs. P x)"
  by (simp add: filter_empty_conv)






lemma users_admin_routes_go_through:
  assumes "\<exists>u\<in>set (users d). utf8_unicode_ci (u_id u) uid"
  shows "users_activate now user uid d =
           (Ok ''User activated successfully'',
            d \<lparr> users := map (\<lambda>u. if utf8_unicode_ci (u_id u) uid
                                   then u \<lparr> u_is_active := True, u_updated_at := now \<rparr>
                                   else u) (users d) \<rparr>)"
    and "uid \<noteq> a_id user \<longrightarrow>
           users_deactivate now user uid d =
             (Ok ''User deactivated successfully'',
              d \<lparr> users := map (\<lambda>u. if utf8_unicode_ci (u_id u) uid
                                     then u \<lparr> u_is_active := False, u_updated_at := now \<rparr>
                                     else u) (users d) \<rparr>)"
    and "uid \<noteq> a_id user \<and> \<not> user_is_referenced uid d \<longrightarrow>
           users_delete user uid d =
             (Ok ''User deleted successfully'',
              d \<lparr> users := filter (\<lambda>u. \<not> utf8_unicode_ci (u_id u) uid) (users d),
                  tasks := map (\<lambda>t. case t_assigned_to t of
                                       None \<Rightarrow> t
                                     | Some a \<Rightarrow> if utf8_unicode_ci a uid
                                                 then t \<lparr> t_assigned_to := None \<rparr> else t)
                             (tasks d) \<rparr>)"
proof -
  from assms have e: "filter (\<lambda>u. utf8_unicode_ci (u_id u) uid) (users d) \<noteq> []"
    unfolding filter_nonempty_member .
  show "users_activate now user uid d =
           (Ok ''User activated successfully'',
            d \<lparr> users := map (\<lambda>u. if utf8_unicode_ci (u_id u) uid
                                   then u \<lparr> u_is_active := True, u_updated_at := now \<rparr>
                                   else u) (users d) \<rparr>)"
    using e by (simp add: users_activate_def Let_def)
  show "uid \<noteq> a_id user \<longrightarrow>
           users_deactivate now user uid d =
             (Ok ''User deactivated successfully'',
              d \<lparr> users := map (\<lambda>u. if utf8_unicode_ci (u_id u) uid
                                     then u \<lparr> u_is_active := False, u_updated_at := now \<rparr>
                                     else u) (users d) \<rparr>)"
    using e by (auto simp: users_deactivate_def Let_def)
  show "uid \<noteq> a_id user \<and> \<not> user_is_referenced uid d \<longrightarrow>
           users_delete user uid d =
             (Ok ''User deleted successfully'',
              d \<lparr> users := filter (\<lambda>u. \<not> utf8_unicode_ci (u_id u) uid) (users d),
                  tasks := map (\<lambda>t. case t_assigned_to t of
                                       None \<Rightarrow> t
                                     | Some a \<Rightarrow> if utf8_unicode_ci a uid
                                                 then t \<lparr> t_assigned_to := None \<rparr> else t)
                             (tasks d) \<rparr>)"
  proof
    assume h: "uid \<noteq> a_id user \<and> \<not> user_is_referenced uid d"
    then have n: "filter (\<lambda>p. utf8_unicode_ci (p_created_by p) uid) (projects d) = []"
      "filter (\<lambda>t. utf8_unicode_ci (t_created_by t) uid) (tasks d) = []"
      unfolding user_is_referenced_def by blast+
    from h e have q: "sql_delete_user uid d =
        Some (length (filter (\<lambda>u. utf8_unicode_ci (u_id u) uid) (users d)),
              d \<lparr> users := filter (\<lambda>u. \<not> utf8_unicode_ci (u_id u) uid) (users d),
                  tasks := map (\<lambda>t. case t_assigned_to t of
                                       None \<Rightarrow> t
                                     | Some a \<Rightarrow> if utf8_unicode_ci a uid
                                                 then t \<lparr> t_assigned_to := None \<rparr> else t)
                             (tasks d) \<rparr>)"
      by (simp add: sql_delete_user_def)
    from h have i: "a_id user \<noteq> uid" by blast
    show "users_delete user uid d =
             (Ok ''User deleted successfully'',
              d \<lparr> users := filter (\<lambda>u. \<not> utf8_unicode_ci (u_id u) uid) (users d),
                  tasks := map (\<lambda>t. case t_assigned_to t of
                                       None \<Rightarrow> t
                                     | Some a \<Rightarrow> if utf8_unicode_ci a uid
                                                 then t \<lparr> t_assigned_to := None \<rparr> else t)
                             (tasks d) \<rparr>)"
      unfolding users_delete_def q using i n e by simp
  qed
qed


lemma collation_matches_case_variant:
  "utf8_unicode_ci ''a1'' ''A1''" "''a1'' \<noteq> ''A1''"
  by (simp_all add: utf8_unicode_ci_def collation_key_def fold_case_def)

text \<open>
  The self-check compares exactly and the database does not. An admin who sends the
  own id with a letter in the other case passes the check, and the statement then
  reaches the admin's own row: the account \<open>a1\<close> is deactivated, or deleted, by \<open>a1\<close>.
\<close>

lemma self_check_misses_case_variant:
  "fst (users_deactivate 7 \<lparr> a_id = ''a1'', a_role = Admin \<rparr> ''A1'' demo_db) =
     Ok ''User deactivated successfully''"
  "\<exists>u\<in>set (users (snd (users_deactivate 7 \<lparr> a_id = ''a1'', a_role = Admin \<rparr> ''A1'' demo_db))).
     u_id u = ''a1'' \<and> \<not> u_is_active u"
  "fst (users_delete \<lparr> a_id = ''a1'', a_role = Admin \<rparr> ''A1'' demo_db) =
     Ok ''User deleted successfully''"
  "''a1'' \<notin> set (map u_id (users (snd (users_delete \<lparr> a_id = ''a1'', a_role = Admin \<rparr> ''A1''
     demo_db))))"
proof -
  have k: "collation_key ''A1'' = ''a1''" "collation_key ''a1'' = ''a1''"
    "collation_key ''u1'' = ''u1''" "collation_key ''u2'' = ''u2''"
    "collation_key ''u3'' = ''u3''" "collation_key ''u4'' = ''u4''"
    "collation_key ''m1'' = ''m1''" "collation_key ''m2'' = ''m2''"
    by (simp_all add: collation_key_def fold_case_def)
  show "fst (users_deactivate 7 \<lparr> a_id = ''a1'', a_role = Admin \<rparr> ''A1'' demo_db) =
     Ok ''User deactivated successfully''"
    by (simp add: users_deactivate_def Let_def utf8_unicode_ci_def k demo_db_def demo_user_def)
  show "\<exists>u\<in>set (users (snd (users_deactivate 7 \<lparr> a_id = ''a1'', a_role = Admin \<rparr> ''A1''
      demo_db))). u_id u = ''a1'' \<and> \<not> u_is_active u"
    by (simp add: users_deactivate_def Let_def utf8_unicode_ci_def k demo_db_def demo_user_def)
  have r: "\<not> user_is_referenced ''A1'' demo_db"
    by (simp add: user_is_referenced_def utf8_unicode_ci_def k demo_db_def demo_project_def
        demo_task_def)
  have m: "\<exists>u\<in>set (users demo_db). utf8_unicode_ci (u_id u) ''A1''"
    by (simp add: utf8_unicode_ci_def k demo_db_def demo_user_def)
  have n: "''A1'' \<noteq> a_id \<lparr> a_id = ''a1'', a_role = Admin \<rparr>" by simp
  from users_admin_routes_go_through(3)[OF m, of "\<lparr> a_id = ''a1'', a_role = Admin \<rparr>"] r n
  have q: "users_delete \<lparr> a_id = ''a1'', a_role = Admin \<rparr> ''A1'' demo_db =
      (Ok ''User deleted successfully'',
       demo_db \<lparr> users := filter (\<lambda>u. \<not> utf8_unicode_ci (u_id u) ''A1'') (users demo_db),
                 tasks := map (\<lambda>t. case t_assigned_to t of
                                      None \<Rightarrow> t
                                    | Some a \<Rightarrow> if utf8_unicode_ci a ''A1''
                                                then t \<lparr> t_assigned_to := None \<rparr> else t)
                            (tasks demo_db) \<rparr>)"
    by blast
  show "fst (users_delete \<lparr> a_id = ''a1'', a_role = Admin \<rparr> ''A1'' demo_db) =
     Ok ''User deleted successfully''"
    unfolding q by simp
  show "''a1'' \<notin> set (map u_id (users (snd (users_delete \<lparr> a_id = ''a1'', a_role = Admin \<rparr> ''A1''
     demo_db))))"
    unfolding q by (simp add: utf8_unicode_ci_def k demo_db_def demo_user_def)
qed




subsection \<open>Tokens\<close>

lemma auth_refresh_verified:
  assumes "jwt_verify tok (REFRESH_TOKEN_SECRET e) now = Inr decoded"
  shows "auth_refresh e now (Some tok) d =
           (case filter (\<lambda>u. u_id u = userId decoded \<and> u_is_active u) (users d) of
              [] \<Rightarrow> Unauthorized ''Invalid refresh token''
            | user # _ \<Rightarrow> Ok (sign_access_token e now user))"
  using assms by (simp add: auth_refresh_def)

lemma filter_Cons_member:
  "filter P xs = x # rest \<Longrightarrow> x \<in> set xs \<and> P x"
proof -
  assume "filter P xs = x # rest"
  then have "x \<in> set (filter P xs)" by simp
  then show ?thesis by simp
qed

text \<open>
  C5, as the claim states it, fails in the error it names. The refresh token of the
  deactivated account \<open>u4\<close> and the refresh token of an account \<open>u9\<close> that is not
  stored any more are both valid, and both are answered 401 "Invalid refresh token":
  the answer is not 404, and it does not tell the inactive account from the missing
  one.
\<close>

theorem refresh_dead_subject_counterexample:
  "auth_refresh demo_env 100 (Some (sign_refresh_token demo_env 0 (demo_user ''u4'' User False)))
     demo_db = Unauthorized ''Invalid refresh token'' \<and>
   auth_refresh demo_env 100 (Some (sign_refresh_token demo_env 0 (demo_user ''u9'' Admin True)))
     demo_db = Unauthorized ''Invalid refresh token'' \<and>
   \<not> is_NotFound
       (auth_refresh demo_env 100
          (Some (sign_refresh_token demo_env 0 (demo_user ''u9'' Admin True))) demo_db)"
  by (simp add: auth_refresh_def jwt_verify_def sign_refresh_token_def jwt_sign_def demo_env_def
      demo_user_def demo_db_def)

text \<open>
  C5, amended. For a refresh token that \<open>jwt.verify\<close> accepts (signature and expiry are
  valid), \<open>POST /refresh\<close> answers with a new access token exactly when a row of
  \<open>users\<close> has the token's subject as id and is active, and the token is then the access
  token of such a row. When the subject is not stored any more, or is stored but
  inactive, the answer is 401 "Invalid refresh token", the same in both cases, and no
  token.
\<close>

theorem refresh_requires_live_subject:
  assumes "jwt_verify tok (REFRESH_TOKEN_SECRET e) now = Inr decoded"
  shows "(is_Ok (auth_refresh e now (Some tok) d) \<longleftrightarrow>
            (\<exists>u\<in>set (users d). u_id u = userId decoded \<and> u_is_active u)) \<and>
         (\<not> (\<exists>u\<in>set (users d). u_id u = userId decoded \<and> u_is_active u) \<longrightarrow>
            auth_refresh e now (Some tok) d = Unauthorized ''Invalid refresh token'') \<and>
         (\<forall>t. auth_refresh e now (Some tok) d = Ok t \<longrightarrow>
            (\<exists>u\<in>set (users d). u_id u = userId decoded \<and> u_is_active u \<and>
               t = sign_access_token e now u))"
proof (cases "filter (\<lambda>u. u_id u = userId decoded \<and> u_is_active u) (users d)")
  case Nil
  then have "\<not> (\<exists>u\<in>set (users d). u_id u = userId decoded \<and> u_is_active u)"
    by (simp add: filter_empty_conv)
  with Nil show ?thesis by (simp add: auth_refresh_verified[OF assms])
next
  case (Cons x rest)
  from filter_Cons_member[OF Cons]
  have "x \<in> set (users d)" "u_id x = userId decoded" "u_is_active x" by simp_all
  with Cons show ?thesis by (auto simp: auth_refresh_verified[OF assms])
qed

theorem refresh_requires_live_subject_witness:
  "jwt_verify (sign_refresh_token demo_env 0 (demo_user ''u4'' User False))
     (REFRESH_TOKEN_SECRET demo_env) 100 = Inr \<lparr> userId = ''u4'', email = None, role = None \<rparr> \<and>
   auth_refresh demo_env 100 (Some (sign_refresh_token demo_env 0 (demo_user ''u4'' User False)))
     demo_db = Unauthorized ''Invalid refresh token'' \<and>
   jwt_verify (sign_refresh_token demo_env 0 (demo_user ''u9'' Admin True))
     (REFRESH_TOKEN_SECRET demo_env) 100 = Inr \<lparr> userId = ''u9'', email = None, role = None \<rparr> \<and>
   auth_refresh demo_env 100 (Some (sign_refresh_token demo_env 0 (demo_user ''u9'' Admin True)))
     demo_db = Unauthorized ''Invalid refresh token'' \<and>
   is_Ok (auth_refresh demo_env 100 (Some (sign_refresh_token demo_env 0 (demo_user ''u2'' User True)))
     demo_db)"
proof -
  have v: "jwt_verify (sign_refresh_token demo_env 0 (demo_user uid r a))
     (REFRESH_TOKEN_SECRET demo_env) 100 = Inr \<lparr> userId = uid, email = None, role = None \<rparr>"
    for uid r a
    by (simp add: jwt_verify_def sign_refresh_token_def jwt_sign_def demo_env_def demo_user_def)
  have dead: "\<not> (\<exists>u\<in>set (users demo_db).
           u_id u = userId \<lparr> userId = ''u4'', email = None, role = None \<rparr> \<and> u_is_active u)"
    "\<not> (\<exists>u\<in>set (users demo_db).
           u_id u = userId \<lparr> userId = ''u9'', email = None, role = None \<rparr> \<and> u_is_active u)"
    by (simp_all add: demo_db_def demo_user_def)
  have live: "\<exists>u\<in>set (users demo_db).
           u_id u = userId \<lparr> userId = ''u2'', email = None, role = None \<rparr> \<and> u_is_active u"
    by (simp add: demo_db_def demo_user_def)
  from refresh_requires_live_subject[OF v, of "''u4''" User False demo_db] dead(1)
  have a: "auth_refresh demo_env 100
      (Some (sign_refresh_token demo_env 0 (demo_user ''u4'' User False))) demo_db =
      Unauthorized ''Invalid refresh token''" by blast
  from refresh_requires_live_subject[OF v, of "''u9''" Admin True demo_db] dead(2)
  have b: "auth_refresh demo_env 100
      (Some (sign_refresh_token demo_env 0 (demo_user ''u9'' Admin True))) demo_db =
      Unauthorized ''Invalid refresh token''" by blast
  from refresh_requires_live_subject[OF v, of "''u2''" User True demo_db] live
  have c: "is_Ok (auth_refresh demo_env 100
      (Some (sign_refresh_token demo_env 0 (demo_user ''u2'' User True))) demo_db)" by blast
  from v a b c show ?thesis by blast
qed

lemma verify_access_signed:
  "verify_access e t (sign_access_token e now u) =
     (if t < now + JWT_EXPIRES_IN e then Inr (u_id u, Some (u_role u)) else Inl Expired)"
  by (simp add: verify_access_def jwt_verify_def sign_access_token_def jwt_sign_def)

lemma auth_login_issues:
  assumes "is_Ok (fst (auth_login bcrypt_compare e now mail password d))"
  shows "\<exists>u\<in>set (users d). u_email u = mail \<and> u_is_active u \<and>
           fst (auth_login bcrypt_compare e now mail password d) =
             Ok \<lparr> ld_user = u, accessToken = sign_access_token e now u,
                  refreshToken = sign_refresh_token e now u \<rparr>"
proof (cases "filter (\<lambda>u. u_email u = mail) (users d)")
  case Nil
  with assms show ?thesis by (simp add: auth_login_def)
next
  case (Cons x rest)
  from filter_Cons_member[OF Cons] have "x \<in> set (users d)" "u_email x = mail" by simp_all
  with assms Cons show ?thesis
    by (auto simp: auth_login_def split: if_splits)
qed

lemma auth_refresh_issues:
  assumes "auth_refresh e now rt d = Ok tk"
  shows "\<exists>u\<in>set (users d). u_is_active u \<and> tk = sign_access_token e now u"
proof -
  from assms obtain tok where rt: "rt = Some tok"
    by (cases rt) (simp_all add: auth_refresh_def)
  from assms rt obtain decoded where
    v: "jwt_verify tok (REFRESH_TOKEN_SECRET e) now = Inr decoded"
    by (cases "jwt_verify tok (REFRESH_TOKEN_SECRET e) now")
       (auto simp: auth_refresh_def elim: errorHandler.elims)
  show ?thesis
  proof (cases "filter (\<lambda>u. u_id u = userId decoded \<and> u_is_active u) (users d)")
    case Nil
    with assms rt show ?thesis by (simp add: auth_refresh_verified[OF v])
  next
    case (Cons x rest)
    from filter_Cons_member[OF Cons] have "x \<in> set (users d)" "u_is_active x" by simp_all
    with assms rt Cons show ?thesis by (auto simp: auth_refresh_verified[OF v])
  qed
qed

text \<open>
  C7. The access token signed for a row of \<open>users\<close> at time \<open>now\<close> is verified, at any
  time before \<open>now + JWT_EXPIRES_IN\<close>, to the actor with the id and the role of that row,
  and from that time on to the error \<open>Expired\<close>. A successful \<open>POST /login\<close> hands out
  exactly this token for the row it found, and a successful \<open>POST /refresh\<close> this token
  for an active row.
\<close>

theorem access_token_round_trip:
  "verify_access e t (sign_access_token e now u) =
     (if t < now + JWT_EXPIRES_IN e then Inr (u_id u, Some (u_role u)) else Inl Expired) \<and>
   (is_Ok (fst (auth_login bcrypt_compare e now mail password d)) \<longrightarrow>
      (\<exists>u\<in>set (users d). u_email u = mail \<and> u_is_active u \<and>
         fst (auth_login bcrypt_compare e now mail password d) =
           Ok \<lparr> ld_user = u, accessToken = sign_access_token e now u,
                refreshToken = sign_refresh_token e now u \<rparr>)) \<and>
   (\<forall>tk. auth_refresh e now rt d = Ok tk \<longrightarrow>
      (\<exists>u\<in>set (users d). u_is_active u \<and> tk = sign_access_token e now u))"
  using verify_access_signed auth_login_issues auth_refresh_issues by blast

theorem access_token_round_trip_witness:
  "is_Ok (fst (auth_login (\<lambda>password hash. True) demo_env 50 ''m1@example.com'' ''pw'' demo_db)) \<and>
   verify_access demo_env 86449 (sign_access_token demo_env 50 (demo_user ''m1'' Manager True)) =
     Inr (''m1'', Some Manager) \<and>
   verify_access demo_env 86450 (sign_access_token demo_env 50 (demo_user ''m1'' Manager True)) =
     Inl Expired \<and>
   (\<exists>u\<in>set (users demo_db). u_email u = ''m1@example.com'' \<and> u_is_active u \<and>
      fst (auth_login (\<lambda>password hash. True) demo_env 50 ''m1@example.com'' ''pw'' demo_db) =
        Ok \<lparr> ld_user = u, accessToken = sign_access_token demo_env 50 u,
             refreshToken = sign_refresh_token demo_env 50 u \<rparr>)"
proof -
  have l: "is_Ok (fst (auth_login (\<lambda>password hash. True) demo_env 50 ''m1@example.com'' ''pw''
      demo_db))"
    by (simp add: auth_login_def demo_db_def demo_user_def)
  have x: "JWT_EXPIRES_IN demo_env = 86400" "u_id (demo_user ''m1'' Manager True) = ''m1''"
    "u_role (demo_user ''m1'' Manager True) = Manager"
    by (simp_all add: demo_env_def demo_user_def)
  note r = access_token_round_trip[where e = demo_env and now = 50
      and u = "demo_user ''m1'' Manager True" and bcrypt_compare = "\<lambda>password hash. True"
      and mail = "''m1@example.com''" and password = "''pw''" and d = demo_db]
  from r[where t = 86449] x
  have a: "verify_access demo_env 86449 (sign_access_token demo_env 50 (demo_user ''m1'' Manager True)) =
     Inr (''m1'', Some Manager)" by simp
  from r[where t = 86450] x
  have b: "verify_access demo_env 86450 (sign_access_token demo_env 50 (demo_user ''m1'' Manager True)) =
     Inl Expired" by simp
  from r[where t = 0] l
  have c: "\<exists>u\<in>set (users demo_db). u_email u = ''m1@example.com'' \<and> u_is_active u \<and>
      fst (auth_login (\<lambda>password hash. True) demo_env 50 ''m1@example.com'' ''pw'' demo_db) =
        Ok \<lparr> ld_user = u, accessToken = sign_access_token demo_env 50 u,
             refreshToken = sign_refresh_token demo_env 50 u \<rparr>" by blast
  from l a b c show ?thesis by blast
qed

lemma shared_secret_makes_tokens_interchangeable:
  assumes "JWT_SECRET e = REFRESH_TOKEN_SECRET e" and "u \<in> set (users d)" and "u_is_active u"
    and "t < now + JWT_EXPIRES_IN e"
  shows "is_Ok (auth_refresh e t (Some (sign_access_token e now u)) d)"
proof -
  have v: "jwt_verify (sign_access_token e now u) (REFRESH_TOKEN_SECRET e) t =
      Inr \<lparr> userId = u_id u, email = Some (u_email u), role = Some (u_role u) \<rparr>"
    using assms(1,4) by (simp add: jwt_verify_def sign_access_token_def jwt_sign_def)
  from assms(2,3)
  have "filter (\<lambda>x. u_id x = u_id u \<and> u_is_active x) (users d) \<noteq> []"
    by (auto simp: filter_empty_conv)
  then show ?thesis
    by (simp add: auth_refresh_verified[OF v] split: list.splits)
qed

text \<open>
  C9. When the two secrets of the environment differ, a token that carries the signature
  of the refresh secret is rejected as invalid where an access token is expected, and a
  token that carries the signature of the access secret is rejected by \<open>POST /refresh\<close>
  with 401 "Invalid token"; in particular the refresh token of a login is no access
  token and its access token is no refresh token.
\<close>

theorem token_kinds_not_interchangeable:
  assumes "JWT_SECRET e \<noteq> REFRESH_TOKEN_SECRET e"
  shows "(tk_signature tok = REFRESH_TOKEN_SECRET e \<longrightarrow> verify_access e now tok = Inl InvalidToken) \<and>
         (tk_signature tok = JWT_SECRET e \<longrightarrow>
            auth_refresh e now (Some tok) d = Unauthorized ''Invalid token'') \<and>
         verify_access e now (sign_refresh_token e issued u) = Inl InvalidToken \<and>
         auth_refresh e now (Some (sign_access_token e issued u)) d = Unauthorized ''Invalid token''"
  using assms
  by (simp add: verify_access_def auth_refresh_def jwt_verify_def sign_refresh_token_def
      sign_access_token_def jwt_sign_def)

theorem token_kinds_not_interchangeable_witness:
  "JWT_SECRET demo_env \<noteq> REFRESH_TOKEN_SECRET demo_env \<and>
   verify_access demo_env 60 (sign_refresh_token demo_env 50 (demo_user ''u1'' User True)) =
     Inl InvalidToken \<and>
   auth_refresh demo_env 60 (Some (sign_access_token demo_env 50 (demo_user ''u1'' User True)))
     demo_db = Unauthorized ''Invalid token''"
proof -
  have h: "JWT_SECRET demo_env \<noteq> REFRESH_TOKEN_SECRET demo_env"
    by (simp add: demo_env_def)
  from token_kinds_not_interchangeable[OF h, where now = 60 and issued = 50
      and u = "demo_user ''u1'' User True" and d = demo_db] h
  show ?thesis by blast
qed

subsection \<open>List scoping and reads by id\<close>

lemma set_join_project:
  "set (join_project d t) =
     {(t', po). t' = t \<and>
        ((po = None \<and> (\<forall>p\<in>set (projects d). p_id p \<noteq> t_project_id t)) \<or>
         (\<exists>p\<in>set (projects d). p_id p = t_project_id t \<and> po = Some p))}"
proof (cases "filter (\<lambda>p. p_id p = t_project_id t) (projects d)")
  case Nil
  then have "\<forall>p\<in>set (projects d). p_id p \<noteq> t_project_id t"
    by (simp add: filter_empty_conv)
  with Nil show ?thesis by (auto simp: join_project_def)
next
  case (Cons x rest)
  have s: "set (x # rest) = {p \<in> set (projects d). p_id p = t_project_id t}"
    unfolding Cons[symmetric] by auto
  then have "x \<in> set (projects d)" "p_id x = t_project_id t" by auto
  then have ne: "\<not> (\<forall>p\<in>set (projects d). p_id p \<noteq> t_project_id t)" by blast
  have "set (join_project d t) = (\<lambda>p. (t, Some p)) ` set (x # rest)"
    by (simp add: join_project_def Cons)
  also have "\<dots> = {(t', po). t' = t \<and>
        (\<exists>p\<in>set (projects d). p_id p = t_project_id t \<and> po = Some p)}"
    unfolding s by auto
  finally show ?thesis using ne by auto
qed

lemma set_tasks_join_projects:
  "set (tasks_join_projects d) =
     {(t, po). t \<in> set (tasks d) \<and>
        ((po = None \<and> (\<forall>p\<in>set (projects d). p_id p \<noteq> t_project_id t)) \<or>
         (\<exists>p\<in>set (projects d). p_id p = t_project_id t \<and> po = Some p))}"
  unfolding tasks_join_projects_def set_concat set_map image_image set_join_project
  by auto

lemma task_scope_rows:
  assumes "a_role user = User"
  shows "(\<exists>po. (t, po) \<in> set (tasks_join_projects d) \<and> task_role_filter user (t, po)) \<longleftrightarrow>
         t \<in> set (tasks d) \<and> task_in_scope user d t"
proof
  assume "\<exists>po. (t, po) \<in> set (tasks_join_projects d) \<and> task_role_filter user (t, po)"
  then obtain po where po: "(t, po) \<in> set (tasks_join_projects d)"
    "task_role_filter user (t, po)" by blast
  from po(1) have t: "t \<in> set (tasks d)" by (simp add: set_tasks_join_projects)
  from po(2) assms have "t_assigned_to t = Some (a_id user) \<or> t_created_by t = a_id user \<or>
      map_option p_created_by po = Some (a_id user)"
    by (simp add: task_role_filter_def)
  moreover have "\<exists>p\<in>set (projects d). p_id p = t_project_id t \<and> p_created_by p = a_id user"
    if "map_option p_created_by po = Some (a_id user)"
  proof -
    from that obtain p where p: "po = Some p" "p_created_by p = a_id user" by auto
    with po(1) have "p \<in> set (projects d)" "p_id p = t_project_id t"
      by (auto simp: set_tasks_join_projects)
    with p show ?thesis by blast
  qed
  ultimately show "t \<in> set (tasks d) \<and> task_in_scope user d t"
    using t unfolding task_in_scope_def by blast
next
  assume a: "t \<in> set (tasks d) \<and> task_in_scope user d t"
  obtain po where po: "(t, po) \<in> set (tasks_join_projects d)"
    "(\<exists>p\<in>set (projects d). p_id p = t_project_id t \<and> p_created_by p = a_id user) \<longrightarrow>
       map_option p_created_by po = Some (a_id user)"
  proof (cases "\<exists>p\<in>set (projects d). p_id p = t_project_id t \<and> p_created_by p = a_id user")
    case True
    then obtain p where "p \<in> set (projects d)" "p_id p = t_project_id t"
      "p_created_by p = a_id user" by blast
    with a have "(t, Some p) \<in> set (tasks_join_projects d)"
      "map_option p_created_by (Some p) = Some (a_id user)"
      by (auto simp: set_tasks_join_projects)
    then show ?thesis using that by blast
  next
    case False
    show ?thesis
    proof (cases "\<forall>p\<in>set (projects d). p_id p \<noteq> t_project_id t")
      case True
      with a have "(t, None) \<in> set (tasks_join_projects d)"
        by (simp add: set_tasks_join_projects)
      with False show ?thesis using that by blast
    next
      case no: False
      then obtain p where "p \<in> set (projects d)" "p_id p = t_project_id t" by blast
      with a have "(t, Some p) \<in> set (tasks_join_projects d)"
        by (auto simp: set_tasks_join_projects)
      with False show ?thesis using that by blast
    qed
  qed
  from a po(2) assms have "task_role_filter user (t, po)"
    unfolding task_in_scope_def task_role_filter_def by auto
  with po(1) show "\<exists>po. (t, po) \<in> set (tasks_join_projects d) \<and> task_role_filter user (t, po)"
    by blast
qed

lemma tasks_list_rows_scope:
  assumes "a_role user = User"
  shows "t \<in> fst ` set (tasks_list_rows like user no_task_query d) \<longleftrightarrow>
         t \<in> set (tasks d) \<and> task_in_scope user d t"
proof -
  have "t \<in> fst ` set (tasks_list_rows like user no_task_query d) \<longleftrightarrow>
        (\<exists>po. (t, po) \<in> set (tasks_join_projects d) \<and> task_role_filter user (t, po))"
    by (force simp: tasks_list_rows_def no_task_query_def)
  then show ?thesis by (simp add: task_scope_rows[OF assms])
qed

lemma tasks_get_Ok_iff:
  "is_Ok (tasks_get user tid d) \<longleftrightarrow>
     (\<exists>t po. (t, po) \<in> set (tasks_join_projects d) \<and> t_id t = tid \<and> task_role_filter user (t, po))"
proof -
  have "is_Ok (tasks_get user tid d) \<longleftrightarrow>
        filter (\<lambda>r. t_id (fst r) = tid \<and> task_role_filter user r) (tasks_join_projects d) \<noteq> []"
    by (simp add: tasks_get_def split: list.splits)
  also have "\<dots> \<longleftrightarrow> (\<exists>r\<in>set (tasks_join_projects d). t_id (fst r) = tid \<and> task_role_filter user r)"
    by (simp add: filter_empty_conv)
  also have "\<dots> \<longleftrightarrow> (\<exists>t po. (t, po) \<in> set (tasks_join_projects d) \<and> t_id t = tid \<and>
      task_role_filter user (t, po))"
    by force
  finally show ?thesis .
qed

lemma tasks_get_scope:
  assumes "a_role user = User"
  shows "is_Ok (tasks_get user tid d) \<longleftrightarrow>
         (\<exists>t\<in>set (tasks d). t_id t = tid \<and> task_in_scope user d t)"
  unfolding tasks_get_Ok_iff using task_scope_rows[OF assms] by blast

lemma listed_task_is_readable:
  assumes "r \<in> set (tasks_list_rows like user q d)"
  shows "is_Ok (tasks_get user (t_id (fst r)) d)"
proof -
  from assms have "r \<in> set (tasks_join_projects d)" "task_role_filter user r"
    by (simp_all add: tasks_list_rows_def)
  then have "\<exists>t po. (t, po) \<in> set (tasks_join_projects d) \<and> t_id t = t_id (fst r) \<and>
      task_role_filter user (t, po)"
    by (metis prod.collapse)
  then show ?thesis by (simp only: tasks_get_Ok_iff)
qed

lemma project_role_filter_scope:
  assumes "a_role user = User"
  shows "project_role_filter user d p \<longleftrightarrow> project_in_scope user d p"
proof -
  have "p_id p \<in> set (remdups (map t_project_id
          (filter (\<lambda>t. t_assigned_to t = Some (a_id user)) (tasks d)))) \<longleftrightarrow>
        (\<exists>t\<in>set (tasks d). t_project_id t = p_id p \<and> t_assigned_to t = Some (a_id user))"
    by (force simp: image_iff)
  with assms show ?thesis
    by (simp add: project_role_filter_def project_in_scope_def)
qed

lemma projects_get_Ok_iff:
  "is_Ok (projects_get user pid d) \<longleftrightarrow>
     (\<exists>p\<in>set (projects d). p_id p = pid \<and> project_role_filter user d p)"
proof -
  have "is_Ok (projects_get user pid d) \<longleftrightarrow>
        filter (\<lambda>p. p_id p = pid \<and> project_role_filter user d p) (projects d) \<noteq> []"
    by (simp add: projects_get_def split: list.splits)
  then show ?thesis by (simp add: filter_empty_conv)
qed

lemma key_unique:
  assumes "distinct (map f xs)" and "x \<in> set xs" and "y \<in> set xs" and "f y = f x"
  shows "y = x"
  using assms by (meson distinct_map inj_on_def)

text \<open>
  C2. For an actor of role \<open>user\<close>, with the primary keys of the schema: a stored task
  is among the rows that the list query selects (no optional filter given) exactly when
  the read of that task by id is answered 200, and both hold exactly when the actor is
  the task's assignee, its creator or the creator of its project; a stored project is
  among the rows of the list query exactly when its read by id is answered 200, and both
  hold exactly when the actor created the project or is assigned to one of its tasks.
  With any optional filters, and for any role, every row that the list query selects
  can be read by id.
\<close>

theorem scoped_list_agrees_with_read_by_id:
  assumes "a_role user = User"
  shows "(distinct (map t_id (tasks d)) \<and> t \<in> set (tasks d) \<longrightarrow>
            (t \<in> fst ` set (tasks_list_rows like user no_task_query d) \<longleftrightarrow>
               is_Ok (tasks_get user (t_id t) d)) \<and>
            (is_Ok (tasks_get user (t_id t) d) \<longleftrightarrow> task_in_scope user d t)) \<and>
         (distinct (map p_id (projects d)) \<and> p \<in> set (projects d) \<longrightarrow>
            (p \<in> set (projects_list_rows like user no_project_query d) \<longleftrightarrow>
               is_Ok (projects_get user (p_id p) d)) \<and>
            (is_Ok (projects_get user (p_id p) d) \<longleftrightarrow> project_in_scope user d p)) \<and>
         (\<forall>r\<in>set (tasks_list_rows like user q d). is_Ok (tasks_get user (t_id (fst r)) d)) \<and>
         (\<forall>x\<in>set (projects_list_rows like user pq d). is_Ok (projects_get user (p_id x) d))"
proof -
  have tasks_part:
    "(t \<in> fst ` set (tasks_list_rows like user no_task_query d) \<longleftrightarrow>
        is_Ok (tasks_get user (t_id t) d)) \<and>
     (is_Ok (tasks_get user (t_id t) d) \<longleftrightarrow> task_in_scope user d t)"
    if k: "distinct (map t_id (tasks d))" and t: "t \<in> set (tasks d)"
  proof -
    have "is_Ok (tasks_get user (t_id t) d) \<longleftrightarrow> task_in_scope user d t"
    proof
      assume "is_Ok (tasks_get user (t_id t) d)"
      then obtain t' where t': "t' \<in> set (tasks d)" "t_id t' = t_id t" "task_in_scope user d t'"
        unfolding tasks_get_scope[OF assms] by blast
      from key_unique[OF k t t'(1,2)] t'(3) show "task_in_scope user d t" by simp
    next
      assume "task_in_scope user d t"
      with t show "is_Ok (tasks_get user (t_id t) d)"
        unfolding tasks_get_scope[OF assms] by blast
    qed
    with t show ?thesis by (simp add: tasks_list_rows_scope[OF assms])
  qed
  have projects_part:
    "(p \<in> set (projects_list_rows like user no_project_query d) \<longleftrightarrow>
        is_Ok (projects_get user (p_id p) d)) \<and>
     (is_Ok (projects_get user (p_id p) d) \<longleftrightarrow> project_in_scope user d p)"
    if k: "distinct (map p_id (projects d))" and p: "p \<in> set (projects d)"
  proof -
    have "is_Ok (projects_get user (p_id p) d) \<longleftrightarrow> project_in_scope user d p"
    proof
      assume "is_Ok (projects_get user (p_id p) d)"
      then obtain p' where p': "p' \<in> set (projects d)" "p_id p' = p_id p"
        "project_in_scope user d p'"
        unfolding projects_get_Ok_iff project_role_filter_scope[OF assms] by blast
      from key_unique[OF k p p'(1,2)] p'(3) show "project_in_scope user d p" by simp
    next
      assume "project_in_scope user d p"
      with p show "is_Ok (projects_get user (p_id p) d)"
        unfolding projects_get_Ok_iff project_role_filter_scope[OF assms] by blast
    qed
    moreover have "p \<in> set (projects_list_rows like user no_project_query d) \<longleftrightarrow>
        project_in_scope user d p"
      using p by (simp add: projects_list_rows_def no_project_query_def
          project_role_filter_scope[OF assms])
    ultimately show ?thesis by simp
  qed
  have listed_tasks:
    "\<forall>r\<in>set (tasks_list_rows like user q d). is_Ok (tasks_get user (t_id (fst r)) d)"
    using listed_task_is_readable by blast
  have listed_projects:
    "\<forall>x\<in>set (projects_list_rows like user pq d). is_Ok (projects_get user (p_id x) d)"
  proof
    fix x assume "x \<in> set (projects_list_rows like user pq d)"
    then have "x \<in> set (projects d)" "project_role_filter user d x"
      by (simp_all add: projects_list_rows_def)
    then show "is_Ok (projects_get user (p_id x) d)"
      unfolding projects_get_Ok_iff by blast
  qed
  from tasks_part projects_part listed_tasks listed_projects show ?thesis by blast
qed

theorem scoped_list_agrees_with_read_by_id_witness:
  "a_role \<lparr> a_id = ''u2'', a_role = User \<rparr> = User \<and>
   distinct (map t_id (tasks demo_db)) \<and>
   demo_task ''t1'' ''p1'' ''m1'' (Some ''u2'') \<in> set (tasks demo_db) \<and>
   demo_task ''t1'' ''p1'' ''m1'' (Some ''u2'') \<in>
     fst ` set (tasks_list_rows (\<lambda>pattern text. False) \<lparr> a_id = ''u2'', a_role = User \<rparr>
                 no_task_query demo_db) \<and>
   is_Ok (tasks_get \<lparr> a_id = ''u2'', a_role = User \<rparr> ''t1'' demo_db) \<and>
   distinct (map p_id (projects demo_db)) \<and> demo_project ''p2'' ''m2'' \<in> set (projects demo_db) \<and>
   demo_project ''p2'' ''m2'' \<notin>
     set (projects_list_rows (\<lambda>pattern text. False) \<lparr> a_id = ''u2'', a_role = User \<rparr>
            no_project_query demo_db) \<and>
   \<not> is_Ok (projects_get \<lparr> a_id = ''u2'', a_role = User \<rparr> ''p2'' demo_db)"
proof -
  let ?u = "\<lparr> a_id = ''u2'', a_role = User \<rparr>"
  let ?t = "demo_task ''t1'' ''p1'' ''m1'' (Some ''u2'')"
  let ?p = "demo_project ''p2'' ''m2''"
  have r: "a_role ?u = User" by simp
  have p: "?p \<in> set (projects demo_db)"
    by (simp add: demo_db_def)
  have i: "t_id ?t = ''t1''" "p_id ?p = ''p2''"
    by (simp_all add: demo_task_def demo_project_def)
  have s: "task_in_scope ?u demo_db ?t" "\<not> project_in_scope ?u demo_db ?p"
    by (simp_all add: task_in_scope_def project_in_scope_def demo_db_def demo_task_def
        demo_project_def)
  note w = scoped_list_agrees_with_read_by_id[OF r, where d = demo_db and t = ?t and p = ?p
      and like = "\<lambda>pattern text. False"]
  from w demo_db_keys(1,4) s(1) have a:
    "?t \<in> fst ` set (tasks_list_rows (\<lambda>pattern text. False) ?u no_task_query demo_db)"
    "is_Ok (tasks_get ?u (t_id ?t) demo_db)"
    by blast+
  from w demo_db_keys(2) p s(2) have b:
    "?p \<notin> set (projects_list_rows (\<lambda>pattern text. False) ?u no_project_query demo_db)"
    "\<not> is_Ok (projects_get ?u (p_id ?p) demo_db)"
    by blast+
  from r demo_db_keys(1,2,4) p a b show ?thesis unfolding i by blast
qed

end
